theory Spec2Isabelle
  imports Complex_Main
begin

section \<open>Learnable bit-width parameters (brevitas/core/bit\_width/parameter.py)\<close>

text \<open>
  The module defines two classes with one trainable scalar each:
  \<^verbatim>\<open>BitWidthParameter\<close> (the spec's LearnedBitWidth) and
  \<^verbatim>\<open>RemoveBitwidthParameter\<close> (the spec's LearnedBitWidthRemoval).

  Numbers. The program computes with Python floats (binary64) and float32 tensors. The
  model reads the arithmetic twice. The exact reading takes floats and scalar tensors as
  \<^typ>\<open>real\<close>, without rounding; it serves where a property is about the formulas
  themselves: the lower bound of \<^verbatim>\<open>forward\<close>, the values the constructor of
  RemoveBitwidthParameter computes, the state-restoration hooks. The machine reading
  (section Machine arithmetic) rounds every operation to the format the program uses and
  has the infinities and NaN; it serves where a property depends on the range or the
  precision of the formats: the construction of a BitWidthParameter, its round trip, and
  the bounds of \<^verbatim>\<open>RemoveBitwidthParameter.forward\<close>. Division by zero is written out in
  both readings: Python's \<^verbatim>\<open>1 / x\<close> on numbers raises \<^verbatim>\<open>ZeroDivisionError\<close>, and a tensor
  division by zero yields a non-finite tensor. The integer constructor arguments are
  \<^typ>\<open>int\<close>.
\<close>

subsection \<open>Constants\<close>

definition MIN_INT_BIT_WIDTH :: int where
  "MIN_INT_BIT_WIDTH = 2"

definition NON_ZERO_EPSILON :: real where
  "NON_ZERO_EPSILON = 1 / 1000000"

definition REMOVE_ZERO_BIT_WIDTH :: real where
  "REMOVE_ZERO_BIT_WIDTH = 1 / 10"

subsection \<open>Errors and message formatting\<close>

text \<open>
  Every \<^verbatim>\<open>raise\<close> of the module raises \<^verbatim>\<open>RuntimeError\<close> with a formatted message;
  the spec calls this kind ConfigurationError. \<^verbatim>\<open>ZeroDivisionError\<close> is what Python's
  number division raises on a zero divisor, \<^verbatim>\<open>OverflowError\<close> what the conversion of an
  integer to a float raises when the integer is too large.
\<close>

datatype error = RuntimeError string | ZeroDivisionError | OverflowError

definition digit_char :: "nat \<Rightarrow> char" where
  "digit_char d = ''0123456789'' ! d"

fun str_nat :: "nat \<Rightarrow> string" where
  "str_nat n = (if n < 10 then [digit_char n] else str_nat (n div 10) @ [digit_char (n mod 10)])"

declare str_nat.simps [simp del]

text \<open>What \<^verbatim>\<open>'{}'.format(i)\<close> prints for an integer: its decimal digits, with a sign.\<close>

definition str_int :: "int \<Rightarrow> string" where
  "str_int i = (if i < 0 then CHR ''-'' # str_nat (nat (- i)) else str_nat (nat i))"

subsection \<open>External collaborators\<close>

text \<open>
  The restriction policy \<^verbatim>\<open>restrict_bit_width_impl\<close> is an object with the method
  \<^verbatim>\<open>restrict_init_float\<close> and a call operator; both are pure (spec, section 6). Its class
  lives outside the two source files, so the policy is a parameter of the model.
\<close>

record restrict_val =
  restrict_init_float :: "real \<Rightarrow> real"
  restrict_call :: "real \<Rightarrow> real"


text \<open>
  Modelled from the spec: the default policy \<^verbatim>\<open>IntRestrictValue(RoundSte())\<close>, imported
  from \<^verbatim>\<open>brevitas.core.restrict_val\<close> and \<^verbatim>\<open>brevitas.core.function_wrapper\<close>, which are
  not among the source files. The spec describes it as "a round-based integer
  restriction". Rounding is to the nearest integer, a tie going to the even neighbour;
  \<^verbatim>\<open>restrict_init_float\<close> leaves the initial value as it is. It is used for examples only.
\<close>

definition RoundSte :: "real \<Rightarrow> real" where
  "RoundSte x =
     (let f = \<lfloor>x\<rfloor>; d = x - of_int f
      in if d < 1 / 2 then of_int f
         else if 1 / 2 < d then of_int (f + 1)
         else if even f then of_int f else of_int (f + 1))"

definition IntRestrictValue :: "(real \<Rightarrow> real) \<Rightarrow> restrict_val" where
  "IntRestrictValue float_to_int_impl =
     \<lparr>restrict_init_float = (\<lambda>x. x), restrict_call = float_to_int_impl\<rparr>"

subsection \<open>BitWidthParameter\<close>

text \<open>
  The instance in the exact reading. Its constructor is given in machine arithmetic
  (section Machine arithmetic), where the conversions to float can fail.
\<close>

record BitWidthParameter =
  bit_width_offset :: real
  bit_width_base :: real
  restrict_bit_width_impl :: restrict_val
  override_pretrained :: bool


subsection \<open>RemoveBitwidthParameter\<close>

text \<open>
  The value of a scalar tensor expression: a finite number, or the non-finite result
  (\<^verbatim>\<open>inf\<close> or \<^verbatim>\<open>nan\<close>) of a division by zero, which the tensor engine returns where
  Python's number division raises.
\<close>

datatype tensor = Fin (the_Fin: real) | NonFinite

text \<open>
  \<open>tensor_rdiv a b\<close> is \<^verbatim>\<open>a / b\<close> for a number \<open>a\<close> and a scalar tensor \<open>b\<close>. In the record
  below the field \<^verbatim>\<open>override_pretrained\<close> carries the suffix \<open>_rm\<close>, the plain name being the
  field of BitWidthParameter.
\<close>

definition tensor_rdiv :: "real \<Rightarrow> real \<Rightarrow> tensor" where
  "tensor_rdiv a b = (if b = 0 then NonFinite else Fin (a / b))"

record RemoveBitwidthParameter =
  bit_width_coeff :: real
  non_zero_epsilon :: real
  override_pretrained_rm :: bool

text \<open>
  Python's \<^verbatim>\<open>a / b\<close> on numbers, as used in \<^verbatim>\<open>__init__\<close>: true division, raising
  on a zero divisor.
\<close>

definition py_truediv :: "real \<Rightarrow> real \<Rightarrow> error + real" where
  "py_truediv a b = (if b = 0 then Inl ZeroDivisionError else Inr (a / b))"

definition RemoveBitwidthParameter_init ::
    "int \<Rightarrow> bool \<Rightarrow> real \<Rightarrow> real \<Rightarrow> error + RemoveBitwidthParameter" where
  "RemoveBitwidthParameter_init bit_width_to_remove override_pretrained_bit_width eps
       remove_zero_bit_width =
     (if bit_width_to_remove < 0 then
        Inl (RuntimeError ''Bit width to clamp has to be >= 0.'')
      else
        (case (if bit_width_to_remove = 0 then py_truediv 1 remove_zero_bit_width
               else py_truediv 1 (real_of_int bit_width_to_remove)) of
           Inl e \<Rightarrow> Inl e
         | Inr bit_width_coeff_init \<Rightarrow>
             Inr \<lparr>bit_width_coeff = bit_width_coeff_init,
                   non_zero_epsilon = eps,
                   override_pretrained_rm = override_pretrained_bit_width\<rparr>))"

definition RemoveBitwidthParameter_forward :: "RemoveBitwidthParameter \<Rightarrow> tensor" where
  "RemoveBitwidthParameter_forward self =
     (let bit_width_to_remove =
            tensor_rdiv 1 (non_zero_epsilon self + \<bar>bit_width_coeff self\<bar>)
      in bit_width_to_remove)"

definition RemoveBitwidthParameter_init_forward ::
    "int \<Rightarrow> bool \<Rightarrow> real \<Rightarrow> real \<Rightarrow> error + tensor" where
  "RemoveBitwidthParameter_init_forward bit_width_to_remove ovr eps remove_zero_bit_width =
     (case RemoveBitwidthParameter_init bit_width_to_remove ovr eps remove_zero_bit_width of
        Inl e \<Rightarrow> Inl e
      | Inr self \<Rightarrow> Inr (RemoveBitwidthParameter_forward self))"

subsection \<open>Restoring state\<close>

text \<open>
  \<^verbatim>\<open>_load_from_state_dict\<close> works on the instance and on four objects of the caller that
  it may change: the saved-state mapping and the three report lists. They are threaded
  through as one record. The prefix, the metadata and the strict flag are read only.
\<close>

record 'm load_state =
  module :: 'm
  state_dict :: "string \<rightharpoonup> real"
  missing_keys :: "string list"
  unexpected_keys :: "string list"
  error_msgs :: "string list"

text \<open>
  The generic loading procedure of the base class (\<^verbatim>\<open>super()._load_from_state_dict\<close>)
  belongs to the tensor library; the hooks take it as the argument \<open>super_load\<close>. The flag
  \<^verbatim>\<open>config.IGNORE_MISSING_KEYS\<close> is process-wide state, passed as \<open>ignore_missing_keys\<close>.
  \<^verbatim>\<open>del d[k]\<close> is \<open>d(k := None)\<close>; \<^verbatim>\<open>l.remove(k)\<close> drops the first \<open>k\<close> of the list,
  which is \<^const>\<open>remove1\<close>.
\<close>

type_synonym ('m, 'meta) loader =
  "string \<Rightarrow> 'meta \<Rightarrow> bool \<Rightarrow> 'm load_state \<Rightarrow> 'm load_state"

definition BitWidthParameter_load_from_state_dict ::
    "(BitWidthParameter, 'meta) loader \<Rightarrow> bool \<Rightarrow> (BitWidthParameter, 'meta) loader" where
  "BitWidthParameter_load_from_state_dict super_load ignore_missing_keys
       prefix local_metadata strict st =
     (let bit_width_offset_key = prefix @ ''bit_width_offset'';
          st1 = (if override_pretrained (module st) \<and> bit_width_offset_key \<in> dom (state_dict st)
                 then st\<lparr>state_dict := (state_dict st)(bit_width_offset_key := None)\<rparr>
                 else st);
          st2 = super_load prefix local_metadata strict st1
      in if ignore_missing_keys \<and> bit_width_offset_key \<in> set (missing_keys st2)
         then st2\<lparr>missing_keys := remove1 bit_width_offset_key (missing_keys st2)\<rparr>
         else st2)"

definition RemoveBitwidthParameter_load_from_state_dict ::
    "(RemoveBitwidthParameter, 'meta) loader \<Rightarrow> bool
       \<Rightarrow> (RemoveBitwidthParameter, 'meta) loader" where
  "RemoveBitwidthParameter_load_from_state_dict super_load ignore_missing_keys
       prefix local_metadata strict st =
     (let bit_width_coeff_key = prefix @ ''bit_width_coeff'';
          st1 = (if override_pretrained_rm (module st)
                      \<and> bit_width_coeff_key \<in> dom (state_dict st)
                 then st\<lparr>state_dict := (state_dict st)(bit_width_coeff_key := None)\<rparr>
                 else st);
          st2 = super_load prefix local_metadata strict st1
      in if ignore_missing_keys \<and> bit_width_coeff_key \<in> set (missing_keys st2)
         then st2\<lparr>missing_keys := remove1 bit_width_coeff_key (missing_keys st2)\<rparr>
         else st2)"

text \<open>
  An instance of the generic procedure for a module with one scalar parameter, used in the
  examples: a saved value under the parameter's key is copied into the parameter;
  without one, a strict load reports the key as missing. (The library's procedure also
  reports unexpected keys; that part plays no role below and is left out.)
\<close>

definition param_loader ::
    "string \<Rightarrow> ('m \<Rightarrow> real \<Rightarrow> 'm) \<Rightarrow> ('m, 'meta) loader" where
  "param_loader name set_param prefix local_metadata strict st =
     (let key = prefix @ name
      in case state_dict st key of
           Some v \<Rightarrow> st\<lparr>module := set_param (module st) v\<rparr>
         | None \<Rightarrow> if strict then st\<lparr>missing_keys := missing_keys st @ [key]\<rparr> else st)"

definition set_bit_width_offset :: "BitWidthParameter \<Rightarrow> real \<Rightarrow> BitWidthParameter" where
  "set_bit_width_offset self v = self\<lparr>bit_width_offset := v\<rparr>"

definition set_bit_width_coeff ::
    "RemoveBitwidthParameter \<Rightarrow> real \<Rightarrow> RemoveBitwidthParameter" where
  "set_bit_width_coeff self v = self\<lparr>bit_width_coeff := v\<rparr>"

subsection \<open>Decimal approximations\<close>

text \<open>
  The spec quotes values of \<^verbatim>\<open>forward()\<close> as decimals with a fixed number of places.
  \<open>agrees_to n v d\<close> says that \<open>v\<close> is within half a unit of the \<open>n\<close>-th decimal place of
  \<open>d\<close>, that is, \<open>d\<close> is \<open>v\<close> rounded to \<open>n\<close> places. This is a notion of the spec, not of
  the source.
\<close>

definition agrees_to :: "nat \<Rightarrow> real \<Rightarrow> real \<Rightarrow> bool" where
  "agrees_to n v d = (\<bar>v - d\<bar> \<le> 5 / 10 ^ (n + 1))"

section \<open>Machine arithmetic\<close>

text \<open>
  The definitions so far read the arithmetic exactly. The ones below round as the program
  does: a Python float is a binary64 number, a tensor made by \<^verbatim>\<open>torch.tensor\<close> from a Python
  float is a float32 (binary32) number, and every operation rounds its exact result to the
  format, to the nearest value with ties to the even one.
\<close>

subsection \<open>Rounding to a binary format\<close>

text \<open>
  \<open>rne\<close> rounds a real to the nearest integer, a tie going to the even one.
  A format has \<open>p\<close> significant bits and least normal exponent \<open>emin\<close>. The exponent of a
  non-zero \<open>x\<close> is the floor of its binary logarithm, but not below \<open>emin\<close> (the subnormal
  range); the spacing of the format's values around \<open>x\<close> is \<open>2\<close> to the power
  \<open>exponent - p + 1\<close>, and \<open>float_round\<close> rounds \<open>x\<close> to the nearest multiple of this spacing.
\<close>

definition rne :: "real \<Rightarrow> int" where
  "rne x =
     (let f = \<lfloor>x\<rfloor>; d = x - of_int f
      in if d < 1 / 2 then f
         else if 1 / 2 < d then f + 1
         else if even f then f else f + 1)"

definition float_exp :: "int \<Rightarrow> real \<Rightarrow> int" where
  "float_exp emin x = max \<lfloor>log 2 \<bar>x\<bar>\<rfloor> emin"

definition float_round :: "nat \<Rightarrow> int \<Rightarrow> real \<Rightarrow> real" where
  "float_round p emin x =
     (if x = 0 then 0
      else (let u = 2 powi (float_exp emin x - int p + 1)
            in of_int (rne (x / u)) * u))"

text \<open>
  A machine value is a finite number, an infinity or NaN. The sign of a zero is not kept.
  A rounded result whose magnitude reaches \<open>2\<close> to the power \<open>emax + 1\<close> overflows to the
  infinity of its sign.
\<close>

datatype fl = Finite (fl_val: real) | PosInf | NegInf | NaN

definition to_float :: "nat \<Rightarrow> int \<Rightarrow> int \<Rightarrow> real \<Rightarrow> fl" where
  "to_float p emin emax x =
     (let r = float_round p emin x
      in if 2 powi (emax + 1) \<le> r then PosInf
         else if r \<le> - (2 powi (emax + 1)) then NegInf
         else Finite r)"

definition f64 :: "real \<Rightarrow> fl" where
  "f64 x = to_float 53 (- 1022) 1023 x"

definition f32 :: "real \<Rightarrow> fl" where
  "f32 x = to_float 24 (- 126) 127 x"

text \<open>The largest finite float32 number.\<close>

definition FLT_MAX :: real where
  "FLT_MAX = 2 powi 128 - 2 powi 104"

subsection \<open>The operations the two classes use\<close>

text \<open>
  \<^verbatim>\<open>float(int(i))\<close>: the integer rounded to binary64; Python raises
  \<^verbatim>\<open>OverflowError\<close> where the rounded value is out of range.
\<close>

definition py_float :: "int \<Rightarrow> error + real" where
  "py_float i = (case f64 (real_of_int i) of Finite v \<Rightarrow> Inr v | _ \<Rightarrow> Inl OverflowError)"

text \<open>
  \<^verbatim>\<open>a - b\<close> on two finite Python floats: the rounded difference; an overflow gives an
  infinity and no exception.
\<close>

definition py_float_sub :: "real \<Rightarrow> real \<Rightarrow> fl" where
  "py_float_sub a b = f64 (a - b)"

text \<open>\<^verbatim>\<open>torch.tensor(x)\<close> for a Python float \<open>x\<close>: the conversion to float32.\<close>

definition torch_tensor :: "fl \<Rightarrow> fl" where
  "torch_tensor x = (case x of Finite v \<Rightarrow> f32 v | other \<Rightarrow> other)"

text \<open>\<^verbatim>\<open>torch.abs\<close>, which is exact.\<close>

fun torch_abs :: "fl \<Rightarrow> fl" where
  "torch_abs (Finite v) = Finite \<bar>v\<bar>"
| "torch_abs PosInf = PosInf"
| "torch_abs NegInf = PosInf"
| "torch_abs NaN = NaN"

text \<open>
  The sum of two float32 values. A tensor plus a Python float is this sum with the
  Python float converted to float32 first.
\<close>

fun f32_add :: "fl \<Rightarrow> fl \<Rightarrow> fl" where
  "f32_add (Finite a) (Finite b) = f32 (a + b)"
| "f32_add NaN _ = NaN"
| "f32_add _ NaN = NaN"
| "f32_add PosInf NegInf = NaN"
| "f32_add NegInf PosInf = NaN"
| "f32_add PosInf _ = PosInf"
| "f32_add _ PosInf = PosInf"
| "f32_add NegInf _ = NegInf"
| "f32_add _ NegInf = NegInf"

text \<open>
  \<^verbatim>\<open>1.0 / t\<close> for a float32 tensor \<open>t\<close>. A zero divisor gives an infinity; the model has
  no signed zero and takes the zero as positive, which it is wherever this module
  divides: the divisor is a sum with an absolute value.
\<close>

fun f32_reciprocal :: "fl \<Rightarrow> fl" where
  "f32_reciprocal (Finite d) = (if d = 0 then PosInf else f32 (1 / d))"
| "f32_reciprocal PosInf = Finite 0"
| "f32_reciprocal NegInf = Finite 0"
| "f32_reciprocal NaN = NaN"

subsection \<open>BitWidthParameter in machine arithmetic\<close>

text \<open>
  The policy now acts on tensors that may be non-finite. \<open>restrict_val_fl_of\<close> turns a
  policy on reals into one on tensors that passes non-finite values through, as rounding
  to an integer does.
\<close>

record restrict_val_fl =
  restrict_init_float_fl :: "real \<Rightarrow> real"
  restrict_call_fl :: "fl \<Rightarrow> fl"

definition lift_fl :: "(real \<Rightarrow> real) \<Rightarrow> fl \<Rightarrow> fl" where
  "lift_fl f x = (case x of Finite v \<Rightarrow> Finite (f v) | other \<Rightarrow> other)"

definition restrict_val_fl_of :: "restrict_val \<Rightarrow> restrict_val_fl" where
  "restrict_val_fl_of policy =
     \<lparr>restrict_init_float_fl = restrict_init_float policy,
      restrict_call_fl = lift_fl (restrict_call policy)\<rparr>"

text \<open>
  Modelled from the spec: the forward pass of \<^verbatim>\<open>abs_binary_sign_grad\<close> on a tensor, the
  absolute value.
\<close>

definition abs_binary_sign_grad_fl :: "fl \<Rightarrow> fl" where
  "abs_binary_sign_grad_fl x = torch_abs x"

record BitWidthParameter_fl =
  bit_width_offset_fl :: fl
  bit_width_base_fl :: real
  restrict_bit_width_impl_fl :: restrict_val_fl
  override_pretrained_fl :: bool

text \<open>
  \<^verbatim>\<open>__init__\<close>: the three checks in the order of the source; the conversions
  \<^verbatim>\<open>float(int(bit_width))\<close> and \<^verbatim>\<open>float(int(min_bit_width))\<close>, each of which may raise; the
  two calls of \<^verbatim>\<open>restrict_init_float\<close>; the difference as a Python float; the offset
  stored as a float32 tensor, the base kept as the Python float it is.
\<close>

definition BitWidthParameter_init ::
    "int \<Rightarrow> int \<Rightarrow> restrict_val_fl \<Rightarrow> bool \<Rightarrow> error + BitWidthParameter_fl" where
  "BitWidthParameter_init bit_width min_bit_width policy override_pretrained_bit_width =
     (if bit_width < MIN_INT_BIT_WIDTH then
        Inl (RuntimeError (''Int bit width has to be at least '' @ str_int MIN_INT_BIT_WIDTH
                           @ '', instead is '' @ str_int bit_width @ ''.''))
      else if min_bit_width < MIN_INT_BIT_WIDTH then
        Inl (RuntimeError (''Min int bit width has to be at least '' @ str_int MIN_INT_BIT_WIDTH
                           @ '', instead is '' @ str_int min_bit_width @ ''.''))
      else if bit_width < min_bit_width then
        Inl (RuntimeError (''Int bit width has to be at least '' @ str_int min_bit_width
                           @ '', instead is '' @ str_int bit_width @ ''.''))
      else
        (case py_float bit_width of
           Inl e \<Rightarrow> Inl e
         | Inr bit_width_f \<Rightarrow>
            (case py_float min_bit_width of
               Inl e \<Rightarrow> Inl e
             | Inr min_bit_width_f \<Rightarrow>
                (let base = restrict_init_float_fl policy min_bit_width_f;
                     bit_width_r = restrict_init_float_fl policy bit_width_f;
                     bit_width_offset_init = py_float_sub bit_width_r base
                 in Inr \<lparr>bit_width_offset_fl = torch_tensor bit_width_offset_init,
                         bit_width_base_fl = base,
                         restrict_bit_width_impl_fl = policy,
                         override_pretrained_fl = override_pretrained_bit_width\<rparr>))))"

text \<open>
  \<^verbatim>\<open>forward\<close>: the absolute value of the offset, plus the base converted to float32, in
  float32; then the policy.
\<close>

definition BitWidthParameter_forward_fl :: "(fl \<Rightarrow> fl) \<Rightarrow> BitWidthParameter_fl \<Rightarrow> fl" where
  "BitWidthParameter_forward_fl absg self =
     (let bit_width = f32_add (absg (bit_width_offset_fl self)) (f32 (bit_width_base_fl self));
          bit_width = restrict_call_fl (restrict_bit_width_impl_fl self) bit_width
      in bit_width)"

text \<open>Construction followed at once by \<^verbatim>\<open>forward()\<close>.\<close>

definition BitWidthParameter_init_forward ::
    "(fl \<Rightarrow> fl) \<Rightarrow> int \<Rightarrow> int \<Rightarrow> restrict_val_fl \<Rightarrow> bool \<Rightarrow> error + fl" where
  "BitWidthParameter_init_forward absg bit_width min_bit_width policy ovr =
     (case BitWidthParameter_init bit_width min_bit_width policy ovr of
        Inl e \<Rightarrow> Inl e
      | Inr self \<Rightarrow> Inr (BitWidthParameter_forward_fl absg self))"

subsection \<open>RemoveBitwidthParameter.forward in machine arithmetic\<close>

text \<open>
  The coefficient is a finite float32 tensor and \<^verbatim>\<open>non_zero_epsilon\<close> a finite Python
  float, the two fields of the record. The sum converts the Python float to float32 and
  adds in float32; the quotient is rounded to float32.
\<close>

definition RemoveBitwidthParameter_forward_fl :: "RemoveBitwidthParameter \<Rightarrow> fl" where
  "RemoveBitwidthParameter_forward_fl self =
     (let bit_width_to_remove =
            f32_reciprocal (f32_add (f32 (non_zero_epsilon self))
                                    (torch_abs (Finite (bit_width_coeff self))))
      in bit_width_to_remove)"

section \<open>Properties\<close>

subsection \<open>Rounding\<close>

lemma rne_of_int [simp]: "rne (of_int n) = n"
  by (simp add: rne_def Let_def)

lemma rne_floor_le: "\<lfloor>x\<rfloor> \<le> rne x"
  by (simp add: rne_def Let_def)

lemma rne_le_floor1: "rne x \<le> \<lfloor>x\<rfloor> + 1"
  by (simp add: rne_def Let_def)

lemma rne_mono: "x \<le> y \<Longrightarrow> rne x \<le> rne y"
proof -
  assume xy: "x \<le> y"
  have fl: "\<lfloor>x\<rfloor> \<le> \<lfloor>y\<rfloor>" using xy by (rule floor_mono)
  show ?thesis
  proof (cases "\<lfloor>x\<rfloor> = \<lfloor>y\<rfloor>")
    case True
    then show ?thesis using xy by (auto simp add: rne_def Let_def)
  next
    case False
    then have "\<lfloor>x\<rfloor> + 1 \<le> \<lfloor>y\<rfloor>" using fl by simp
    then show ?thesis
      using rne_le_floor1 [of x] rne_floor_le [of y] by linarith
  qed
qed

lemma rne_le_int: "x \<le> of_int n \<Longrightarrow> rne x \<le> n"
  using rne_mono [of x "of_int n"] by simp

lemma rne_ge_int: "of_int n \<le> x \<Longrightarrow> n \<le> rne x"
  using rne_mono [of "of_int n" x] by simp

lemma rne_below_half: "x < of_int n + 1 / 2 \<Longrightarrow> rne x \<le> n"
proof -
  assume h: "x < of_int n + 1 / 2"
  have "\<lfloor>x\<rfloor> \<le> n" using h by (simp add: floor_le_iff)
  then consider "\<lfloor>x\<rfloor> = n" | "\<lfloor>x\<rfloor> + 1 \<le> n" by linarith
  then show ?thesis
  proof cases
    case 1
    then have "x - of_int \<lfloor>x\<rfloor> < 1 / 2" using h by simp
    then show ?thesis using 1 by (simp add: rne_def Let_def)
  next
    case 2
    then show ?thesis using rne_le_floor1 [of x] by linarith
  qed
qed

lemma two_powr_powi: "(2::real) powr real_of_int k = 2 powi k"
  by (rule powr_real_of_int') simp_all

lemma float_exp_eq:
  assumes "2 powi k \<le> \<bar>x\<bar>" and "\<bar>x\<bar> < 2 powi (k + 1)"
  shows "float_exp emin x = max k emin"
proof -
  have "(0::real) < 2 powi k" by simp
  then have pos: "0 < \<bar>x\<bar>" using assms(1) by linarith
  have "\<lfloor>log 2 \<bar>x\<bar>\<rfloor> = k"
    using assms pos two_powr_powi [of k] two_powr_powi [of "k + 1"]
    by (simp add: floor_log_eq_powr_iff)
  then show ?thesis by (simp add: float_exp_def)
qed

lemma float_exp_bounds:
  assumes "x \<noteq> 0"
  shows "\<bar>x\<bar> < 2 powi (float_exp emin x + 1)"
    and "emin < float_exp emin x \<Longrightarrow> 2 powi (float_exp emin x) \<le> \<bar>x\<bar>"
proof -
  let ?k = "\<lfloor>log 2 \<bar>x\<bar>\<rfloor>"
  have pos: "0 < \<bar>x\<bar>" using assms by simp
  have "\<lfloor>log 2 \<bar>x\<bar>\<rfloor> = ?k" by simp
  then have b: "2 powr (real_of_int ?k) \<le> \<bar>x\<bar> \<and> \<bar>x\<bar> < 2 powr (real_of_int (?k + 1))"
    using pos floor_log_eq_powr_iff [of "\<bar>x\<bar>" 2 ?k] by simp
  then have b': "2 powi ?k \<le> \<bar>x\<bar>" "\<bar>x\<bar> < 2 powi (?k + 1)"
    by (simp_all only: two_powr_powi)
  have "?k + 1 \<le> float_exp emin x + 1" by (simp add: float_exp_def)
  then have "(2::real) powi (?k + 1) \<le> 2 powi (float_exp emin x + 1)"
    by (intro power_int_increasing) simp_all
  then show "\<bar>x\<bar> < 2 powi (float_exp emin x + 1)" using b'(2) by linarith
  show "emin < float_exp emin x \<Longrightarrow> 2 powi (float_exp emin x) \<le> \<bar>x\<bar>"
  proof -
    assume "emin < float_exp emin x"
    then have "float_exp emin x = ?k" by (simp add: float_exp_def max_def split: if_splits)
    then show ?thesis using b'(1) by simp
  qed
qed

lemma float_exp_mono:
  assumes "x \<noteq> 0" and "\<bar>x\<bar> \<le> \<bar>y\<bar>"
  shows "float_exp emin x \<le> float_exp emin y"
proof -
  have "log 2 \<bar>x\<bar> \<le> log 2 \<bar>y\<bar>" using assms by (intro log_mono) simp_all
  then have "\<lfloor>log 2 \<bar>x\<bar>\<rfloor> \<le> \<lfloor>log 2 \<bar>y\<bar>\<rfloor>" by (rule floor_mono)
  then show ?thesis by (simp add: float_exp_def max_def)
qed

lemma rne_above_half: "of_int n + 1 / 2 \<le> x \<Longrightarrow> odd n \<Longrightarrow> n + 1 \<le> rne x"
proof -
  assume h: "of_int n + 1 / 2 \<le> x" and o: "odd n"
  have "n \<le> \<lfloor>x\<rfloor>" using h by (simp add: le_floor_iff)
  then consider "\<lfloor>x\<rfloor> = n" | "n + 1 \<le> \<lfloor>x\<rfloor>" by linarith
  then show ?thesis
  proof cases
    case 1
    then have "1 / 2 \<le> x - of_int \<lfloor>x\<rfloor>" using h by simp
    then show ?thesis using 1 o by (simp add: rne_def Let_def)
  next
    case 2
    then show ?thesis using rne_floor_le [of x] by linarith
  qed
qed

lemma ulp_split: "(2::real) powi (e + 1) = 2 ^ p * 2 powi (e - int p + 1)"
proof -
  have "(2::real) powi (e + 1) = 2 powi (int p + (e - int p + 1))" by simp
  also have "\<dots> = 2 powi (int p) * 2 powi (e - int p + 1)"
    by (rule power_int_add) simp
  finally show ?thesis by simp
qed

lemma ulp_split_low:
  assumes "1 \<le> p"
  shows "(2::real) powi e = 2 ^ (p - 1) * 2 powi (e - int p + 1)"
proof -
  have "(2::real) powi e = 2 powi (int (p - 1) + (e - int p + 1))"
    using assms by (simp add: of_nat_diff)
  also have "\<dots> = 2 powi (int (p - 1)) * 2 powi (e - int p + 1)"
    by (rule power_int_add) simp
  finally show ?thesis by simp
qed

lemma float_round_pos_eq:
  "x \<noteq> 0 \<Longrightarrow> float_round p emin x =
     of_int (rne (x / 2 powi (float_exp emin x - int p + 1)))
       * 2 powi (float_exp emin x - int p + 1)"
  by (simp add: float_round_def Let_def)

lemma float_round_nonneg: "0 \<le> x \<Longrightarrow> 0 \<le> float_round p emin x"
proof (cases "x = 0")
  case True
  then show ?thesis by (simp add: float_round_def)
next
  case False
  assume "0 \<le> x"
  let ?u = "(2::real) powi (float_exp emin x - int p + 1)"
  have u: "0 < ?u" by simp
  have "0 \<le> x / ?u" using \<open>0 \<le> x\<close> u by simp
  then have "0 \<le> rne (x / ?u)" using rne_ge_int [of 0 "x / ?u"] by simp
  then show ?thesis using False u by (simp add: float_round_pos_eq)
qed

lemma float_round_upper:
  assumes "0 < x"
  shows "float_round p emin x \<le> 2 powi (float_exp emin x + 1)"
proof -
  let ?e = "float_exp emin x"
  let ?u = "(2::real) powi (?e - int p + 1)"
  have u: "0 < ?u" by simp
  have "x < 2 powi (?e + 1)" using float_exp_bounds(1) [of x emin] assms by simp
  then have "x < 2 ^ p * ?u" by (simp only: ulp_split [of ?e p])
  then have "x / ?u < 2 ^ p" using u by (simp add: pos_divide_less_eq)
  then have "x / ?u \<le> of_int (2 ^ p)" by simp
  then have "rne (x / ?u) \<le> 2 ^ p" by (rule rne_le_int)
  then have "real_of_int (rne (x / ?u)) \<le> 2 ^ p"
    using of_int_le_iff [of "rne (x / ?u)" "2 ^ p", where ?'a = real] by simp
  then have "real_of_int (rne (x / ?u)) * ?u \<le> 2 ^ p * ?u"
    using u by (simp add: mult_right_mono)
  then show ?thesis using assms by (simp add: float_round_pos_eq ulp_split [of ?e p])
qed

lemma float_round_lower:
  assumes "0 < x" and "emin < float_exp emin x" and "1 \<le> p"
  shows "2 powi (float_exp emin x) \<le> float_round p emin x"
proof -
  let ?e = "float_exp emin x"
  let ?u = "(2::real) powi (?e - int p + 1)"
  have u: "0 < ?u" by simp
  have "2 powi ?e \<le> x" using float_exp_bounds(2) [of x emin] assms by simp
  then have "2 ^ (p - 1) * ?u \<le> x" using ulp_split_low [OF assms(3), of ?e] by simp
  then have "2 ^ (p - 1) \<le> x / ?u" using u by (simp add: pos_le_divide_eq)
  then have "of_int (2 ^ (p - 1)) \<le> x / ?u" by simp
  then have "2 ^ (p - 1) \<le> rne (x / ?u)" by (rule rne_ge_int)
  then have "2 ^ (p - 1) \<le> real_of_int (rne (x / ?u))"
    using of_int_le_iff [of "2 ^ (p - 1)" "rne (x / ?u)", where ?'a = real] by simp
  then have "2 ^ (p - 1) * ?u \<le> real_of_int (rne (x / ?u)) * ?u"
    using u by (simp add: mult_right_mono)
  then show ?thesis
    using assms(1) ulp_split_low [OF assms(3), of ?e] by (simp add: float_round_pos_eq)
qed

lemma float_round_mono:
  assumes "0 < x" and "x \<le> y" and "1 \<le> p"
  shows "float_round p emin x \<le> float_round p emin y"
proof -
  have ypos: "0 < y" using assms by linarith
  have em: "float_exp emin x \<le> float_exp emin y"
    using float_exp_mono [of x y emin] assms ypos by simp
  show ?thesis
  proof (cases "float_exp emin x = float_exp emin y")
    case True
    let ?u = "(2::real) powi (float_exp emin y - int p + 1)"
    have u: "0 < ?u" by simp
    have "x / ?u \<le> y / ?u" using assms(2) u by (simp add: divide_right_mono)
    then have "rne (x / ?u) \<le> rne (y / ?u)" by (rule rne_mono)
    then have "real_of_int (rne (x / ?u)) * ?u \<le> real_of_int (rne (y / ?u)) * ?u"
      using u by (simp add: mult_right_mono)
    then show ?thesis using True assms(1) ypos by (simp add: float_round_pos_eq)
  next
    case False
    then have lt: "float_exp emin x + 1 \<le> float_exp emin y" using em by simp
    have "emin \<le> float_exp emin x" by (simp add: float_exp_def)
    then have "emin < float_exp emin y" using lt by simp
    then have l: "2 powi (float_exp emin y) \<le> float_round p emin y"
      using float_round_lower [OF ypos _ assms(3)] by simp
    have "(2::real) powi (float_exp emin x + 1) \<le> 2 powi (float_exp emin y)"
      using lt by (intro power_int_increasing) simp_all
    then show ?thesis using l float_round_upper [OF assms(1), of p emin] by linarith
  qed
qed

lemma of_int_le_pow2: "n \<le> 2 ^ p \<Longrightarrow> real_of_int n \<le> 2 ^ p"
  using of_int_le_iff [of n "2 ^ p", where ?'a = real] by simp

lemma of_int_le_pow2m1: "n \<le> 2 ^ p - 1 \<Longrightarrow> real_of_int n \<le> 2 ^ p - 1"
  using of_int_le_iff [of n "2 ^ p - 1", where ?'a = real] by simp

lemma of_int_ge_pow2: "2 ^ p \<le> n \<Longrightarrow> 2 ^ p \<le> real_of_int n"
  using of_int_le_iff [of "2 ^ p" n, where ?'a = real] by simp

lemma of_int_abs_less_pow2: "\<bar>m\<bar> < 2 ^ p \<Longrightarrow> real_of_int \<bar>m\<bar> < 2 ^ p"
  using of_int_less_iff [of "\<bar>m\<bar>" "2 ^ p", where ?'a = real] by simp

lemma one_less_pow2: "1 \<le> p \<Longrightarrow> (1::int) < 2 ^ p"
  by (cases p) (simp_all add: less_le_trans [of 1 2])

lemma two_powi_less_D: "(2::real) powi a < 2 powi b \<Longrightarrow> a < b"
proof (rule ccontr)
  assume l: "(2::real) powi a < 2 powi b" and "\<not> a < b"
  then have "b \<le> a" by simp
  then have "(2::real) powi b \<le> 2 powi a" by (intro power_int_increasing) simp_all
  then show False using l by linarith
qed

text \<open>A multiple of the spacing with fewer than \<open>p\<close> bits is a value of the format.\<close>

lemma float_round_grid:
  assumes m: "\<bar>m\<bar> < 2 ^ p" and j: "emin - int p + 1 \<le> j"
  shows "float_round p emin (of_int m * 2 powi j) = of_int m * 2 powi j"
proof (cases "m = 0")
  case True
  then show ?thesis by (simp add: float_round_def)
next
  case False
  let ?x = "real_of_int m * 2 powi j"
  let ?e = "float_exp emin ?x"
  have xn: "?x \<noteq> 0" using False by simp
  have ax: "\<bar>?x\<bar> = real_of_int \<bar>m\<bar> * 2 powi j" by (simp add: abs_mult)
  have "real_of_int \<bar>m\<bar> < 2 ^ p" using m by (rule of_int_abs_less_pow2)
  then have "\<bar>?x\<bar> < 2 ^ p * 2 powi j" unfolding ax by (simp add: mult_strict_right_mono)
  also have "\<dots> = 2 powi (int p + j)" by (simp add: power_int_add)
  finally have xlt: "\<bar>?x\<bar> < 2 powi (int p + j)" .
  have e_le: "?e \<le> int p + j - 1"
  proof (cases "emin < ?e")
    case True
    then have "2 powi ?e \<le> \<bar>?x\<bar>" using float_exp_bounds(2) [OF xn, of emin] by simp
    then have "(2::real) powi ?e < 2 powi (int p + j)" using xlt by linarith
    then have "?e < int p + j" by (rule two_powi_less_D)
    then show ?thesis by simp
  next
    case False
    have "emin \<le> ?e" by (simp add: float_exp_def)
    then have "?e = emin" using False by simp
    then show ?thesis using j by simp
  qed
  define d where "d = nat (j - (?e - int p + 1))"
  define u where "u = (2::real) powi (?e - int p + 1)"
  have u: "0 < u" by (simp add: u_def)
  have dj: "j = int d + (?e - int p + 1)" using e_le by (simp add: d_def)
  have "(2::real) powi j = 2 powi (int d) * 2 powi (?e - int p + 1)"
    by (subst dj, rule power_int_add) simp
  then have pj: "(2::real) powi j = 2 ^ d * u" by (simp add: u_def)
  have q: "?x / u = of_int (m * 2 ^ d)" using u by (simp add: pj)
  have "float_round p emin ?x = of_int (rne (?x / u)) * u"
    using xn unfolding u_def by (rule float_round_pos_eq)
  also have "\<dots> = of_int (m * 2 ^ d) * u" by (simp only: q rne_of_int)
  also have "\<dots> = ?x" using u by (simp add: pj)
  finally show ?thesis .
qed

lemma float_round_pow2:
  assumes "emin - int p + 1 \<le> k" and "1 \<le> p"
  shows "float_round p emin (2 powi k) = 2 powi k"
proof -
  have "\<bar>1::int\<bar> < 2 ^ p" using one_less_pow2 [OF assms(2)] by simp
  from float_round_grid [OF this assms(1)] show ?thesis by simp
qed

lemma float_round_int:
  assumes "\<bar>n\<bar> \<le> 2 ^ p" and "emin \<le> 0" and "1 \<le> p"
  shows "float_round p emin (of_int n) = of_int n"
proof (cases "\<bar>n\<bar> = 2 ^ p")
  case False
  then have "\<bar>n\<bar> < 2 ^ p" using assms(1) by simp
  moreover have "emin - int p + 1 \<le> 0" using assms by simp
  ultimately have "float_round p emin (of_int n * 2 powi 0) = of_int n * 2 powi 0"
    by (rule float_round_grid)
  then show ?thesis by simp
next
  case True
  have k: "emin - int p + 1 \<le> int p" using assms by simp
  have pw: "float_round p emin (2 powi (int p)) = 2 powi (int p)"
    using float_round_pow2 [OF k assms(3)] .
  have mg: "float_round p emin (of_int (- 1) * 2 powi (int p)) = of_int (- 1) * 2 powi (int p)"
  proof (rule float_round_grid [OF _ k])
    show "\<bar>- 1 :: int\<bar> < 2 ^ p" using one_less_pow2 [OF assms(3)] by simp
  qed
  from True have "n = 2 ^ p \<or> n = - (2 ^ p)" by (simp add: abs_if split: if_splits)
  then show ?thesis
  proof
    assume "n = 2 ^ p"
    then show ?thesis using pw by simp
  next
    assume "n = - (2 ^ p)"
    then show ?thesis using mg by simp
  qed
qed

text \<open>
  The overflow threshold: a number below \<open>2^(emax+1) - 2^(emax-p)\<close> rounds to a finite
  value, a number from there on rounds to \<open>2^(emax+1)\<close> or more.
\<close>

lemma threshold_algebra:
  fixes emax :: int and p :: nat
  assumes "1 \<le> p"
  defines "U \<equiv> (2::real) powi (emax - int p + 1)"
  shows "(2::real) powi (emax + 1) - 2 powi (emax - int p) = (2 ^ p - 1 / 2) * U"
    and "(2::real) powi (emax + 1) - 2 powi (emax - int p + 1) = (2 ^ p - 1) * U"
    and "(2::real) powi emax \<le> (2 ^ p - 1) * U"
    and "(2::real) powi (emax + 1) = 2 ^ p * U"
proof -
  have U: "0 < U" by (simp add: U_def)
  have "(2::real) powi (emax - int p + 1) = 2 powi (emax - int p) * 2 powi 1"
    by (rule power_int_add) simp
  then have half: "(2::real) powi (emax - int p) = U / 2" by (simp add: U_def)
  have top: "(2::real) powi (emax + 1) = 2 ^ p * U" unfolding U_def by (rule ulp_split)
  have low: "(2::real) powi emax = 2 ^ (p - 1) * U"
    unfolding U_def by (rule ulp_split_low [OF assms(1)])
  have pp: "(2::real) ^ p = 2 * 2 ^ (p - 1)"
    using assms(1) by (cases p) simp_all
  have "1 * U \<le> 2 ^ (p - 1) * U" using U by (intro mult_right_mono) simp_all
  then have w: "U \<le> 2 ^ (p - 1) * U" by simp
  show "(2::real) powi (emax + 1) - 2 powi (emax - int p) = (2 ^ p - 1 / 2) * U"
    unfolding top half by (simp add: left_diff_distrib)
  show "(2::real) powi (emax + 1) - 2 powi (emax - int p + 1) = (2 ^ p - 1) * U"
    unfolding top by (simp add: left_diff_distrib U_def)
  have "2 ^ (p - 1) * U \<le> 2 * (2 ^ (p - 1) * U) - U" using w by linarith
  also have "\<dots> = (2 * 2 ^ (p - 1) - 1) * U" by (simp add: left_diff_distrib)
  finally show "(2::real) powi emax \<le> (2 ^ p - 1) * U" unfolding low pp .
  show "(2::real) powi (emax + 1) = 2 ^ p * U" by (rule top)
qed

lemma float_round_below_threshold:
  assumes "0 < x" and "x < 2 powi (emax + 1) - 2 powi (emax - int p)"
    and "emin \<le> emax" and "1 \<le> p"
  shows "float_round p emin x \<le> 2 powi (emax + 1) - 2 powi (emax - int p + 1)"
proof -
  let ?e = "float_exp emin x"
  define U where "U = (2::real) powi (emax - int p + 1)"
  have U: "0 < U" by (simp add: U_def)
  note alg = threshold_algebra [OF assms(4), of emax, folded U_def]
  have max_eq: "2 powi (emax + 1) - 2 powi (emax - int p + 1) = (2 ^ p - 1) * U"
    unfolding U_def by (rule threshold_algebra(2) [OF assms(4)])
  have xthr: "x < (2 ^ p - 1 / 2) * U" using assms(2) by (simp only: alg(1))
  have "(2 ^ p - 1 / 2) * U \<le> 2 ^ p * U" using U by (simp add: left_diff_distrib)
  then have xlt: "x < 2 powi (emax + 1)" using xthr by (simp only: alg(4))
  have e_le: "?e \<le> emax"
  proof (cases "emin < ?e")
    case True
    then have "2 powi ?e \<le> x" using float_exp_bounds(2) [of x emin] assms(1) by simp
    then have "(2::real) powi ?e < 2 powi (emax + 1)" using xlt by linarith
    then have "?e < emax + 1" by (rule two_powi_less_D)
    then show ?thesis by simp
  next
    case False
    have "emin \<le> ?e" by (simp add: float_exp_def)
    then show ?thesis using False assms(3) by simp
  qed
  show ?thesis
  proof (cases "?e = emax")
    case True
    have "x / U < 2 ^ p - 1 / 2" using U xthr by (simp add: pos_divide_less_eq)
    then have "x / U < of_int (2 ^ p - 1) + 1 / 2" by simp
    then have "rne (x / U) \<le> 2 ^ p - 1" by (rule rne_below_half)
    then have "real_of_int (rne (x / U)) \<le> 2 ^ p - 1" by (rule of_int_le_pow2m1)
    then have "real_of_int (rne (x / U)) * U \<le> (2 ^ p - 1) * U"
      using U by (intro mult_right_mono) simp_all
    moreover have "float_round p emin x = real_of_int (rne (x / U)) * U"
      using float_round_pos_eq [of x p emin] assms(1) True by (simp add: U_def)
    ultimately show ?thesis by (simp only: max_eq)
  next
    case False
    then have "?e + 1 \<le> emax" using e_le by simp
    then have "(2::real) powi (?e + 1) \<le> 2 powi emax"
      by (intro power_int_increasing) simp_all
    then have "float_round p emin x \<le> (2 ^ p - 1) * U"
      using float_round_upper [OF assms(1), of p emin] alg(3) by linarith
    then show ?thesis by (simp only: max_eq)
  qed
qed

lemma float_round_above_threshold:
  assumes "2 powi (emax + 1) - 2 powi (emax - int p) \<le> x"
    and "emin \<le> emax" and "1 \<le> p"
  shows "2 powi (emax + 1) \<le> float_round p emin x"
proof -
  define U where "U = (2::real) powi (emax - int p + 1)"
  have U: "0 < U" by (simp add: U_def)
  note alg = threshold_algebra [OF assms(3), of emax, folded U_def]
  have xthr: "(2 ^ p - 1 / 2) * U \<le> x" using assms(1) by (simp only: alg(1))
  have "(2 ^ p - 1) * U \<le> (2 ^ p - 1 / 2) * U" using U by (simp add: left_diff_distrib)
  then have xge: "2 powi emax \<le> x" using alg(3) xthr by linarith
  moreover have "(0::real) < 2 powi emax" by simp
  ultimately have xpos: "0 < x" by linarith
  show ?thesis
  proof (cases "x < 2 powi (emax + 1)")
    case True
    have "float_exp emin x = max emax emin"
      using float_exp_eq [of emax x emin] xge True xpos by simp
    then have e: "float_exp emin x = emax" using assms(2) by simp
    have "2 ^ p - 1 / 2 \<le> x / U" using U xthr by (simp add: pos_le_divide_eq)
    then have "of_int (2 ^ p - 1) + 1 / 2 \<le> x / U" by simp
    moreover have "odd ((2::int) ^ p - 1)" using assms(3) by simp
    ultimately have "(2 ^ p - 1) + 1 \<le> rne (x / U)" by (rule rne_above_half)
    then have "2 ^ p \<le> rne (x / U)" by simp
    then have "2 ^ p \<le> real_of_int (rne (x / U))" by (rule of_int_ge_pow2)
    then have "2 ^ p * U \<le> real_of_int (rne (x / U)) * U"
      using U by (intro mult_right_mono) simp_all
    moreover have "float_round p emin x = real_of_int (rne (x / U)) * U"
      using float_round_pos_eq [of x p emin] xpos e by (simp add: U_def)
    ultimately show ?thesis by (simp only: alg(4))
  next
    case False
    then have ge: "2 powi (emax + 1) \<le> x" by simp
    have "emax + 1 \<le> float_exp emin x"
    proof (rule ccontr)
      assume "\<not> emax + 1 \<le> float_exp emin x"
      then have "float_exp emin x + 1 \<le> emax + 1" by simp
      then have "(2::real) powi (float_exp emin x + 1) \<le> 2 powi (emax + 1)"
        by (intro power_int_increasing) simp_all
      moreover have "x < 2 powi (float_exp emin x + 1)"
        using float_exp_bounds(1) [of x emin] xpos by simp
      ultimately show False using ge by linarith
    qed
    then have "emin < float_exp emin x" using assms(2) by simp
    from float_round_lower [OF xpos this assms(3)]
    have "2 powi (float_exp emin x) \<le> float_round p emin x" .
    moreover have "(2::real) powi (emax + 1) \<le> 2 powi (float_exp emin x)"
      using \<open>emax + 1 \<le> float_exp emin x\<close> by (intro power_int_increasing) simp_all
    ultimately show ?thesis by linarith
  qed
qed

lemma rne_eval: "of_int n - 1 / 2 < x \<Longrightarrow> x < of_int n + 1 / 2 \<Longrightarrow> rne x = n"
proof -
  assume l: "of_int n - 1 / 2 < x" and u: "x < of_int n + 1 / 2"
  have a: "rne x \<le> n" using u by (rule rne_below_half)
  have "\<lfloor>x\<rfloor> = n \<or> \<lfloor>x\<rfloor> = n - 1" using l u by linarith
  then have "n \<le> rne x"
  proof
    assume "\<lfloor>x\<rfloor> = n"
    then show ?thesis using rne_floor_le [of x] by simp
  next
    assume f: "\<lfloor>x\<rfloor> = n - 1"
    then have "1 / 2 < x - of_int \<lfloor>x\<rfloor>" using l by simp
    then show ?thesis using f by (simp add: rne_def Let_def)
  qed
  then show ?thesis using a by simp
qed

lemma float_round_idem:
  assumes "1 \<le> p"
  shows "float_round p emin (float_round p emin x) = float_round p emin x"
proof (cases "x = 0")
  case True
  then show ?thesis by (simp add: float_round_def)
next
  case False
  let ?e = "float_exp emin x"
  define u where "u = (2::real) powi (?e - int p + 1)"
  define m where "m = rne (x / u)"
  have u: "0 < u" by (simp add: u_def)
  have fx: "float_round p emin x = of_int m * u"
    unfolding m_def u_def using False by (rule float_round_pos_eq)
  have j: "emin - int p + 1 \<le> ?e - int p + 1" by (simp add: float_exp_def)
  have "\<bar>x\<bar> < 2 powi (?e + 1)" using float_exp_bounds(1) [OF False] .
  then have "\<bar>x\<bar> < 2 ^ p * u" unfolding u_def by (simp only: ulp_split [of ?e p])
  then have "\<bar>x\<bar> / u < 2 ^ p" using u by (simp add: pos_divide_less_eq)
  moreover have "\<bar>x / u\<bar> = \<bar>x\<bar> / u" using u by (simp add: abs_divide)
  ultimately have q: "\<bar>x / u\<bar> < 2 ^ p" by (simp only:)
  have "x / u \<le> 2 ^ p" "- (2 ^ p) \<le> x / u" using q by linarith+
  then have b: "x / u \<le> of_int (2 ^ p)" "of_int (- (2 ^ p)) \<le> x / u" by simp_all
  have mle: "m \<le> 2 ^ p" unfolding m_def using b(1) by (rule rne_le_int)
  have mge: "- (2 ^ p) \<le> m" unfolding m_def using b(2) by (rule rne_ge_int)
  consider "\<bar>m\<bar> < 2 ^ p" | "m = 2 ^ p" | "m = - (2 ^ p)" using mle mge by linarith
  then show ?thesis
  proof cases
    case 1
    from float_round_grid [OF 1 j] show ?thesis unfolding fx u_def .
  next
    case 2
    have k: "emin - int p + 1 \<le> ?e + 1" using j by simp
    have "float_round p emin x = 2 powi (?e + 1)"
      unfolding fx 2 u_def by (simp add: ulp_split [of ?e p])
    then show ?thesis using float_round_pow2 [OF k assms] by simp
  next
    case 3
    have k: "emin - int p + 1 \<le> ?e + 1" using j by simp
    have "\<bar>- 1 :: int\<bar> < 2 ^ p" using one_less_pow2 [OF assms] by simp
    from float_round_grid [OF this k]
    have g: "float_round p emin (- (2 powi (?e + 1))) = - (2 powi (?e + 1))" by simp
    have "float_round p emin x = - (2 powi (?e + 1))"
      unfolding fx 3 u_def by (simp add: ulp_split [of ?e p])
    then show ?thesis using g by simp
  qed
qed

subsection \<open>Conversions to float32 and binary64\<close>

lemma to_float_Finite_pos:
  assumes "0 \<le> x" and "x < 2 powi (emax + 1) - 2 powi (emax - int p)"
    and "emin \<le> emax" and "1 \<le> p"
  shows "to_float p emin emax x = Finite (float_round p emin x)"
proof -
  have top: "(0::real) < 2 powi (emax + 1)" by simp
  have nn: "0 \<le> float_round p emin x" using assms(1) by (rule float_round_nonneg)
  have "float_round p emin x < 2 powi (emax + 1)"
  proof (cases "x = 0")
    case True
    then show ?thesis by (simp add: float_round_def)
  next
    case False
    then have "0 < x" using assms(1) by simp
    from float_round_below_threshold [OF this assms(2) assms(3) assms(4)]
    have "float_round p emin x \<le> 2 powi (emax + 1) - 2 powi (emax - int p + 1)" .
    moreover have "(0::real) < 2 powi (emax - int p + 1)" by simp
    ultimately show ?thesis by linarith
  qed
  then show ?thesis using nn top by (simp add: to_float_def Let_def)
qed

lemma to_float_PosInf:
  assumes "2 powi (emax + 1) - 2 powi (emax - int p) \<le> x" and "emin \<le> emax" and "1 \<le> p"
  shows "to_float p emin emax x = PosInf"
  using float_round_above_threshold [OF assms] by (simp add: to_float_def Let_def)

lemma to_float_eq:
  assumes "float_round p emin x = r" and "\<bar>r\<bar> < 2 powi (emax + 1)"
  shows "to_float p emin emax x = Finite r"
  using assms by (simp add: to_float_def Let_def abs_if split: if_splits)

lemma to_float_exact:
  assumes "float_round p emin x = x" and "\<bar>x\<bar> < 2 powi (emax + 1)"
  shows "to_float p emin emax x = Finite x"
  using assms by (simp add: to_float_def Let_def abs_if split: if_splits)

lemma f32_Finite_pos:
  "0 \<le> x \<Longrightarrow> x < 2 powi 128 - 2 powi 103 \<Longrightarrow> f32 x = Finite (float_round 24 (- 126) x)"
  unfolding f32_def using to_float_Finite_pos [of x 127 24 "- 126"] by simp

lemma f32_int: "\<bar>n\<bar> \<le> 2 ^ 24 \<Longrightarrow> f32 (of_int n) = Finite (of_int n)"
proof -
  assume a: "\<bar>n\<bar> \<le> 2 ^ 24"
  have r: "float_round 24 (- 126) (of_int n) = of_int n"
    using a by (intro float_round_int) simp_all
  have "\<bar>real_of_int n\<bar> \<le> 2 ^ 24"
    using a of_int_le_iff [of "\<bar>n\<bar>" "2 ^ 24", where ?'a = real] by simp
  then have "\<bar>real_of_int n\<bar> < 2 powi (127 + 1)" by simp
  with r show ?thesis unfolding f32_def by (rule to_float_exact)
qed

lemma f64_int: "\<bar>n\<bar> \<le> 2 ^ 53 \<Longrightarrow> f64 (of_int n) = Finite (of_int n)"
proof -
  assume a: "\<bar>n\<bar> \<le> 2 ^ 53"
  have r: "float_round 53 (- 1022) (of_int n) = of_int n"
    using a by (intro float_round_int) simp_all
  have "\<bar>real_of_int n\<bar> \<le> 2 ^ 53"
    using a of_int_le_iff [of "\<bar>n\<bar>" "2 ^ 53", where ?'a = real] by simp
  then have "\<bar>real_of_int n\<bar> < 2 powi (1023 + 1)" by simp
  with r show ?thesis unfolding f64_def by (rule to_float_exact)
qed

lemma py_float_ok:
  assumes "0 \<le> i" and "i < 2 ^ 1024 - 2 ^ 970"
  shows "py_float i = Inr (float_round 53 (- 1022) (real_of_int i))"
proof -
  have "real_of_int i < real_of_int (2 ^ 1024 - 2 ^ 970)" using assms(2) by (simp only: of_int_less_iff)
  then have "real_of_int i < 2 powi (1023 + 1) - 2 powi (1023 - int 53)" by simp
  moreover have "0 \<le> real_of_int i" using assms(1) by simp
  ultimately have "to_float 53 (- 1022) 1023 (real_of_int i)
      = Finite (float_round 53 (- 1022) (real_of_int i))"
    by (intro to_float_Finite_pos) simp_all
  then show ?thesis by (simp add: py_float_def f64_def)
qed


lemma py_float_exact: "\<bar>i\<bar> \<le> 2 ^ 53 \<Longrightarrow> py_float i = Inr (real_of_int i)"
  by (simp add: py_float_def f64_int)

subsection \<open>The default rounding policy\<close>




subsection \<open>Construction errors of BitWidthParameter\<close>




subsection \<open>Construction followed by forward\<close>

text \<open>
  Claim C1, as stated, for every restriction policy: it fails for a policy whose
  \<^verbatim>\<open>restrict_init_float\<close> is decreasing. With \<open>restrict_init_float x = - x\<close> and the
  identity as the call, \<open>bit_width = 8\<close> and \<open>min_bit_width = 2\<close> give the base \<open>- 2\<close> and the
  offset \<open>- 6\<close>; \<^verbatim>\<open>forward()\<close> returns \<open>\<bar>- 6\<bar> + (- 2) = 4\<close>, while the restricted image
  of the bit width is \<open>- 8\<close>. All the numbers are small integers, which the conversions and
  the float32 sum leave as they are.
\<close>

theorem BitWidthParameter_roundtrip_counterexample:
  "BitWidthParameter_init_forward abs_binary_sign_grad_fl 8 2
      \<lparr>restrict_init_float_fl = uminus, restrict_call_fl = id\<rparr> False = Inr (Finite 4)
   \<and> BitWidthParameter_init_forward abs_binary_sign_grad_fl 8 2
      \<lparr>restrict_init_float_fl = uminus, restrict_call_fl = id\<rparr> False
     \<noteq> Inr (restrict_call_fl \<lparr>restrict_init_float_fl = uminus, restrict_call_fl = id\<rparr>
             (Finite (restrict_init_float_fl
                        \<lparr>restrict_init_float_fl = uminus, restrict_call_fl = id\<rparr>
                        (real_of_int 8))))"
proof -
  have c: "py_float 8 = Inr 8" "py_float 2 = Inr 2"
    using py_float_exact [of 8] py_float_exact [of 2] by simp_all
  have d: "f64 (- 6) = Finite (- 6)" using f64_int [of "- 6"] by simp
  have e: "f32 (- 6) = Finite (- 6)" "f32 (- 2) = Finite (- 2)" "f32 4 = Finite 4"
    using f32_int [of "- 6"] f32_int [of "- 2"] f32_int [of 4] by simp_all
  show ?thesis
    by (simp add: BitWidthParameter_init_forward_def BitWidthParameter_init_def
          BitWidthParameter_forward_fl_def abs_binary_sign_grad_fl_def MIN_INT_BIT_WIDTH_def
          py_float_sub_def torch_tensor_def Let_def c d e)
qed

text \<open>
  The float32 format bounds the round trip as well. With the default policy,
  \<open>bit_width = 16777219\<close> and \<open>min_bit_width = 2\<close>, the offset \<open>16777217\<close> is not a float32
  number and is stored as \<open>16777216\<close>; \<^verbatim>\<open>forward()\<close> returns \<open>16777218\<close>.
\<close>

lemma float_round_16777217: "float_round 24 (- 126) 16777217 = 16777216"
proof -
  have "float_exp (- 126) 16777217 = max 24 (- 126)"
    by (rule float_exp_eq) simp_all
  then have e: "float_exp (- 126) 16777217 = 24" by simp
  have r: "rne (16777217 / 2) = 8388608" by (simp add: rne_def Let_def)
  show ?thesis by (simp add: float_round_def e r)
qed

lemma BitWidthParameter_roundtrip_float32_example:
  "BitWidthParameter_init_forward abs_binary_sign_grad_fl 16777219 2
      (restrict_val_fl_of (IntRestrictValue RoundSte)) False = Inr (Finite 16777218)"
proof -
  have c: "py_float 16777219 = Inr 16777219" "py_float 2 = Inr 2"
    using py_float_exact [of 16777219] py_float_exact [of 2] by simp_all
  have d: "f64 16777217 = Finite 16777217" using f64_int [of 16777217] by simp
  have e: "f32 16777217 = Finite 16777216"
    by (simp add: f32_def to_float_def float_round_16777217)
  have f: "f32 2 = Finite 2" using f32_int [of 2] by simp
  have "float_round 24 (- 126) (of_int 8388609 * 2 powi 1) = of_int 8388609 * 2 powi 1"
    by (rule float_round_grid) simp_all
  then have "float_round 24 (- 126) 16777218 = 16777218" by simp
  then have g: "f32 16777218 = Finite 16777218" by (simp add: f32_def to_float_def)
  have h: "RoundSte 16777218 = 16777218" by (simp add: RoundSte_def Let_def)
  show ?thesis
    by (simp add: BitWidthParameter_init_forward_def BitWidthParameter_init_def
          BitWidthParameter_forward_fl_def abs_binary_sign_grad_fl_def MIN_INT_BIT_WIDTH_def
          py_float_sub_def torch_tensor_def Let_def restrict_val_fl_of_def IntRestrictValue_def
          lift_fl_def c d e f g h)
qed

text \<open>
  Claim C1, amended. Let \<open>bit_width \<ge> min_bit_width \<ge> 2\<close> with \<open>bit_width\<close> below
  \<open>2^1024 - 2^970\<close>, so that the conversions to float succeed, and let \<open>a\<close> and \<open>b\<close> be the
  policy's \<^verbatim>\<open>restrict_init_float\<close> of the converted \<open>min_bit_width\<close> and \<open>bit_width\<close>. If
  \<open>a \<le> b\<close> (as for every monotonic non-decreasing \<^verbatim>\<open>restrict_init_float\<close>), \<open>a\<close> and \<open>b\<close> are
  float32 numbers and the difference \<open>b - a\<close> is stored exactly, then constructing a
  BitWidthParameter and calling \<^verbatim>\<open>forward()\<close> at once returns the policy applied to the
  tensor \<open>b\<close>, the restricted image of \<open>bit_width\<close>. This is the case whenever
  \<^verbatim>\<open>restrict_init_float\<close> is the identity, as in the default policy, and
  \<open>bit_width \<le> 2^24\<close>.
\<close>

theorem BitWidthParameter_roundtrip:
  "(2 \<le> min_bit_width \<and> min_bit_width \<le> bit_width \<and> bit_width < 2 ^ 1024 - 2 ^ 970
      \<and> a = restrict_init_float_fl policy (float_round 53 (- 1022) (real_of_int min_bit_width))
      \<and> b = restrict_init_float_fl policy (float_round 53 (- 1022) (real_of_int bit_width))
      \<and> a \<le> b \<and> f32 a = Finite a \<and> f32 b = Finite b
      \<and> torch_tensor (py_float_sub b a) = Finite (b - a)
    \<longrightarrow> BitWidthParameter_init_forward abs_binary_sign_grad_fl bit_width min_bit_width policy ovr
          = Inr (restrict_call_fl policy (Finite b)))
   \<and> (2 \<le> min_bit_width \<and> min_bit_width \<le> bit_width \<and> bit_width \<le> 2 ^ 24
      \<and> restrict_init_float_fl policy = (\<lambda>x. x)
    \<longrightarrow> BitWidthParameter_init_forward abs_binary_sign_grad_fl bit_width min_bit_width policy ovr
          = Inr (restrict_call_fl policy (Finite (real_of_int bit_width))))"
proof -
  have gen: "BitWidthParameter_init_forward abs_binary_sign_grad_fl bit_width min_bit_width
               policy ovr = Inr (restrict_call_fl policy (Finite b))"
    if h: "2 \<le> min_bit_width" "min_bit_width \<le> bit_width" "bit_width < 2 ^ 1024 - 2 ^ 970"
      "a = restrict_init_float_fl policy (float_round 53 (- 1022) (real_of_int min_bit_width))"
      "b = restrict_init_float_fl policy (float_round 53 (- 1022) (real_of_int bit_width))"
      "a \<le> b" "f32 a = Finite a" "f32 b = Finite b"
      "torch_tensor (py_float_sub b a) = Finite (b - a)"
    for a b
  proof -
    have pb: "py_float bit_width = Inr (float_round 53 (- 1022) (real_of_int bit_width))"
      using h by (intro py_float_ok) simp_all
    have pm: "py_float min_bit_width
        = Inr (float_round 53 (- 1022) (real_of_int min_bit_width))"
      using h by (intro py_float_ok) simp_all
    have ab: "\<bar>b - a\<bar> = b - a" using h(6) by simp
    have init: "BitWidthParameter_init bit_width min_bit_width policy ovr =
        Inr \<lparr>bit_width_offset_fl = Finite (b - a), bit_width_base_fl = a,
              restrict_bit_width_impl_fl = policy, override_pretrained_fl = ovr\<rparr>"
      using h(1,2) h(9)
      by (simp add: BitWidthParameter_init_def MIN_INT_BIT_WIDTH_def Let_def pb pm
            h(4) [symmetric] h(5) [symmetric])
    show ?thesis
      by (simp add: BitWidthParameter_init_forward_def init BitWidthParameter_forward_fl_def
            abs_binary_sign_grad_fl_def Let_def ab h(7) h(8))
  qed
  have idc: "BitWidthParameter_init_forward abs_binary_sign_grad_fl bit_width min_bit_width
               policy ovr = Inr (restrict_call_fl policy (Finite (real_of_int bit_width)))"
    if h: "2 \<le> min_bit_width" "min_bit_width \<le> bit_width" "bit_width \<le> 2 ^ 24"
      "restrict_init_float_fl policy = (\<lambda>x. x)"
  proof -
    have r1: "float_round 53 (- 1022) (real_of_int bit_width) = real_of_int bit_width"
      using h by (intro float_round_int) simp_all
    have r2: "float_round 53 (- 1022) (real_of_int min_bit_width) = real_of_int min_bit_width"
      using h by (intro float_round_int) simp_all
    have d64: "f64 (real_of_int (bit_width - min_bit_width))
        = Finite (real_of_int (bit_width - min_bit_width))"
      using h by (intro f64_int) simp_all
    have d32: "f32 (real_of_int (bit_width - min_bit_width))
        = Finite (real_of_int (bit_width - min_bit_width))"
      using h by (intro f32_int) simp_all
    have "torch_tensor (py_float_sub (real_of_int bit_width) (real_of_int min_bit_width))
        = Finite (real_of_int bit_width - real_of_int min_bit_width)"
      using d64 d32 by (simp add: py_float_sub_def torch_tensor_def)
    moreover have "f32 (real_of_int min_bit_width) = Finite (real_of_int min_bit_width)"
      using h by (intro f32_int) simp_all
    moreover have "f32 (real_of_int bit_width) = Finite (real_of_int bit_width)"
      using h by (intro f32_int) simp_all
    moreover have "bit_width < 2 ^ 1024 - 2 ^ 970" using h(3) by simp
    ultimately show ?thesis
      using gen [of "real_of_int min_bit_width" "real_of_int bit_width"] h
      by (simp add: r1 r2)
  qed
  show ?thesis using gen idc by blast
qed

theorem BitWidthParameter_roundtrip_witness:
  "BitWidthParameter_init_forward abs_binary_sign_grad_fl 8 2
     (restrict_val_fl_of (IntRestrictValue RoundSte)) False = Inr (Finite 8)
   \<and> BitWidthParameter_init_forward abs_binary_sign_grad_fl (2 ^ 24) 2
     (restrict_val_fl_of (IntRestrictValue RoundSte)) False = Inr (Finite (2 ^ 24))
   \<and> BitWidthParameter_init_forward abs_binary_sign_grad_fl 8 2
     \<lparr>restrict_init_float_fl = (\<lambda>x. x / 2), restrict_call_fl = id\<rparr> False = Inr (Finite 4)"
proof -
  let ?p = "restrict_val_fl_of (IntRestrictValue RoundSte)"
  let ?q = "\<lparr>restrict_init_float_fl = (\<lambda>x. x / 2), restrict_call_fl = id\<rparr>"
  have fr: "float_round 53 (- 1022) 2 = 2" "float_round 53 (- 1022) 8 = 8"
    using float_round_int [of 2 53 "- 1022"] float_round_int [of 8 53 "- 1022"] by simp_all
  have f: "f32 1 = Finite 1" "f32 4 = Finite 4" "f32 3 = Finite 3" "f64 3 = Finite 3"
    using f32_int [of 1] f32_int [of 4] f32_int [of 3] f64_int [of 3] by simp_all
  have g: "BitWidthParameter_init_forward abs_binary_sign_grad_fl 8 2 ?q False
      = Inr (restrict_call_fl ?q (Finite 4))"
    using BitWidthParameter_roundtrip [of 2 8 1 ?q 4 False]
    by (simp add: fr f py_float_sub_def torch_tensor_def)
  have i: "restrict_init_float_fl ?p = (\<lambda>x. x)"
    by (simp add: restrict_val_fl_of_def IntRestrictValue_def)
  have r: "RoundSte 8 = 8" "RoundSte 16777216 = 16777216"
    by (simp_all add: RoundSte_def Let_def)
  have c: "restrict_call_fl ?p (Finite 8) = Finite 8"
     "restrict_call_fl ?p (Finite (2 ^ 24)) = Finite (2 ^ 24)"
    by (simp_all add: restrict_val_fl_of_def IntRestrictValue_def lift_fl_def r)
  have a: "BitWidthParameter_init_forward abs_binary_sign_grad_fl 8 2 ?p False
      = Inr (restrict_call_fl ?p (Finite (real_of_int 8)))"
    using BitWidthParameter_roundtrip [of 2 8 _ ?p _ False] i by simp
  have b: "BitWidthParameter_init_forward abs_binary_sign_grad_fl (2 ^ 24) 2 ?p False
      = Inr (restrict_call_fl ?p (Finite (real_of_int (2 ^ 24))))"
    using BitWidthParameter_roundtrip [of 2 "2 ^ 24" _ ?p _ False] i by simp
  show ?thesis using a b c g by simp
qed

subsection \<open>The lower bound of forward\<close>



subsection \<open>forward of RemoveBitwidthParameter\<close>

lemma f32_pow2_fixed:
  "- 149 \<le> k \<Longrightarrow> float_round 24 (- 126) (2 powi k) = 2 powi k"
  by (rule float_round_pow2) simp_all

lemma forward_fl_steps:
  assumes lo: "2 powi (- 126) \<le> eps" and hi: "eps \<le> 2 powi 102" and c: "\<bar>c\<bar> \<le> FLT_MAX"
  defines "d \<equiv> float_round 24 (- 126) (float_round 24 (- 126) eps + \<bar>c\<bar>)"
  shows "f32 eps = Finite (float_round 24 (- 126) eps)"
    and "f32 (float_round 24 (- 126) eps + \<bar>c\<bar>) = Finite d"
    and "2 powi (- 126) \<le> d"
    and "d \<le> 2 powi 128"
    and "f32 (1 / d) = Finite (float_round 24 (- 126) (1 / d))"
    and "0 < float_round 24 (- 126) (1 / d)"
proof -
  let ?r = "float_round 24 (- 126)"
  have small: "(0::real) < 2 powi (- 126)" by simp
  have p126: "?r (2 powi (- 126)) = 2 powi (- 126)" by (rule f32_pow2_fixed) simp
  have p102: "?r (2 powi 102) = 2 powi 102" by (rule f32_pow2_fixed) simp
  have p128: "?r (2 powi (- 128)) = 2 powi (- 128)" by (rule f32_pow2_fixed) simp
  have epos: "0 < eps" using lo small by linarith
  have "?r (2 powi (- 126)) \<le> ?r eps" using small lo by (intro float_round_mono) simp_all
  then have e_lo: "2 powi (- 126) \<le> ?r eps" unfolding p126 .
  have "?r eps \<le> ?r (2 powi 102)" using epos hi by (intro float_round_mono) simp_all
  then have e_hi: "?r eps \<le> 2 powi 102" unfolding p102 .
  have "eps < 2 powi 128 - 2 powi 103" using hi by simp
  then show "f32 eps = Finite (?r eps)" using epos by (intro f32_Finite_pos) simp_all
  let ?s = "?r eps + \<bar>c\<bar>"
  have s_lo: "2 powi (- 126) \<le> ?s" using e_lo by simp
  have spos: "0 < ?s" using s_lo small by linarith
  have "?s \<le> 2 powi 102 + (2 powi 128 - 2 powi 104)" using e_hi c by (simp add: FLT_MAX_def)
  then have s_hi: "?s < 2 powi 128 - 2 powi 103" by simp
  show "f32 ?s = Finite d" unfolding d_def using spos s_hi by (intro f32_Finite_pos) simp_all
  have "?r (2 powi (- 126)) \<le> ?r ?s" using small s_lo by (intro float_round_mono) simp_all
  then show d_lo: "2 powi (- 126) \<le> d" unfolding d_def p126 .
  have "?s < 2 powi (127 + 1) - 2 powi (127 - int 24)" using s_hi by simp
  from float_round_below_threshold [OF spos this]
  have "?r ?s \<le> 2 powi (127 + 1) - 2 powi (127 - int 24 + 1)" by simp
  then show d_hi: "d \<le> 2 powi 128" unfolding d_def by simp
  have dpos: "0 < d" using d_lo small by linarith
  have qpos: "0 < 1 / d" using dpos by simp
  have "1 / d \<le> 1 / 2 powi (- 126)" using d_lo small by (intro divide_left_mono) simp_all
  then have q_hi: "1 / d \<le> 2 powi 126" by simp
  then have "1 / d < 2 powi 128 - 2 powi 103" by simp
  then show "f32 (1 / d) = Finite (?r (1 / d))" using qpos by (intro f32_Finite_pos) simp_all
  have "1 / 2 powi 128 \<le> 1 / d" using d_hi dpos by (intro divide_left_mono) simp_all
  then have q_lo: "2 powi (- 128) \<le> 1 / d" by simp
  have "?r (2 powi (- 128)) \<le> ?r (1 / d)" using q_lo by (intro float_round_mono) simp_all
  then have "2 powi (- 128) \<le> ?r (1 / d)" unfolding p128 .
  moreover have "(0::real) < 2 powi (- 128)" by simp
  ultimately show "0 < ?r (1 / d)" by linarith
qed

lemma forward_fl_value:
  assumes "2 powi (- 126) \<le> non_zero_epsilon self" and "non_zero_epsilon self \<le> 2 powi 102"
    and "\<bar>bit_width_coeff self\<bar> \<le> FLT_MAX"
  shows "RemoveBitwidthParameter_forward_fl self =
           Finite (float_round 24 (- 126)
                     (1 / float_round 24 (- 126)
                            (float_round 24 (- 126) (non_zero_epsilon self)
                               + \<bar>bit_width_coeff self\<bar>)))"
proof -
  note st = forward_fl_steps [OF assms]
  have "(0::real) < 2 powi (- 126)" by simp
  then have "float_round 24 (- 126)
               (float_round 24 (- 126) (non_zero_epsilon self) + \<bar>bit_width_coeff self\<bar>) \<noteq> 0"
    using st(3) by linarith
  then show ?thesis
    by (simp add: RemoveBitwidthParameter_forward_fl_def st(1) st(2) st(5))
qed

lemma forward_fl_antimono:
  assumes lo: "2 powi (- 126) \<le> eps" and hi: "eps \<le> 2 powi 102"
    and c1: "\<bar>c1\<bar> \<le> \<bar>c2\<bar>" and c2: "\<bar>c2\<bar> \<le> FLT_MAX"
  shows "float_round 24 (- 126)
           (1 / float_round 24 (- 126) (float_round 24 (- 126) eps + \<bar>c2\<bar>))
         \<le> float_round 24 (- 126)
           (1 / float_round 24 (- 126) (float_round 24 (- 126) eps + \<bar>c1\<bar>))"
proof -
  let ?r = "float_round 24 (- 126)"
  have c1': "\<bar>c1\<bar> \<le> FLT_MAX" using c1 c2 by linarith
  note s1 = forward_fl_steps [OF lo hi c1']
  note s2 = forward_fl_steps [OF lo hi c2]
  have small: "(0::real) < 2 powi (- 126)" by simp
  have d1: "0 < ?r (?r eps + \<bar>c1\<bar>)" using s1(3) small by linarith
  have d2: "0 < ?r (?r eps + \<bar>c2\<bar>)" using s2(3) small by linarith
  have "0 < ?r eps + \<bar>c1\<bar>"
  proof (rule ccontr)
    assume "\<not> 0 < ?r eps + \<bar>c1\<bar>"
    moreover have "0 \<le> ?r eps" using lo small by (intro float_round_nonneg) linarith
    ultimately have "?r eps + \<bar>c1\<bar> = 0" by linarith
    then show False using d1 by (simp add: float_round_def)
  qed
  then have "?r (?r eps + \<bar>c1\<bar>) \<le> ?r (?r eps + \<bar>c2\<bar>)"
    using c1 by (intro float_round_mono) simp_all
  then have "1 / ?r (?r eps + \<bar>c2\<bar>) \<le> 1 / ?r (?r eps + \<bar>c1\<bar>)"
    using d1 d2 by (simp add: frac_le)
  moreover have "0 < 1 / ?r (?r eps + \<bar>c2\<bar>)" using d2 by simp
  ultimately show ?thesis by (intro float_round_mono) simp_all
qed

lemma float_round_1em40: "float_round 24 (- 126) (1 / 10 ^ 40) = 71362 * 2 powi (- 149)"
proof -
  define u where "u = (2::real) powi (- 149)"
  have "float_exp (- 126) (1 / 10 ^ 40) = max (- 133) (- 126)"
    by (rule float_exp_eq) simp_all
  then have e: "float_exp (- 126) (1 / 10 ^ 40) - int 24 + 1 = - 149" by simp
  have nz: "(1 / 10 ^ 40 :: real) \<noteq> 0" by simp
  have fr: "float_round 24 (- 126) (1 / 10 ^ 40) = of_int (rne (1 / 10 ^ 40 / u)) * u"
    unfolding u_def using float_round_pos_eq [OF nz, of 24 "- 126"] by (simp only: e)
  have r: "rne (1 / 10 ^ 40 / u) = 71362"
    unfolding u_def by (rule rne_eval) simp_all
  have "float_round 24 (- 126) (1 / 10 ^ 40) = of_int 71362 * u" by (simp only: fr r)
  then show ?thesis unfolding u_def by simp
qed

text \<open>
  Claim C5, as stated, for every \<open>non_zero_epsilon > 0\<close>: the result is not always finite.
  With \<open>non_zero_epsilon = 1e-40\<close> and the coefficient \<open>0\<close>, the epsilon becomes the
  subnormal float32 number \<open>71362 \<cdot> 2^-149\<close>, whose reciprocal is beyond the float32 range:
  \<^verbatim>\<open>forward()\<close> returns \<open>inf\<close>.
\<close>

theorem RemoveBitwidthParameter_forward_finite_counterexample:
  "(0::real) < 1 / 10 ^ 40
   \<and> RemoveBitwidthParameter_forward_fl
        \<lparr>bit_width_coeff = 0, non_zero_epsilon = 1 / 10 ^ 40, override_pretrained_rm = False\<rparr>
      = PosInf"
proof -
  let ?e = "71362 * 2 powi (- 149) :: real"
  have small: "\<bar>?e\<bar> < 2 powi (127 + 1)" by simp
  have a: "f32 (1 / 10 ^ 40) = Finite ?e"
    unfolding f32_def using float_round_1em40 small by (rule to_float_eq)
  have "float_round 24 (- 126) (of_int 71362 * 2 powi (- 149)) = of_int 71362 * 2 powi (- 149)"
    by (rule float_round_grid) simp_all
  then have "float_round 24 (- 126) ?e = ?e" by simp
  then have b: "f32 ?e = Finite ?e" unfolding f32_def using small by (rule to_float_eq)
  have "to_float 24 (- 126) 127 (1 / ?e) = PosInf"
    by (rule to_float_PosInf) simp_all
  then have c: "f32 (1 / ?e) = PosInf" by (simp only: f32_def)
  have nz: "?e \<noteq> 0" by simp
  have "RemoveBitwidthParameter_forward_fl
        \<lparr>bit_width_coeff = 0, non_zero_epsilon = 1 / 10 ^ 40, override_pretrained_rm = False\<rparr>
      = f32_reciprocal (f32_add (f32 (1 / 10 ^ 40)) (torch_abs (Finite 0)))"
    by (simp only: RemoveBitwidthParameter_forward_fl_def Let_def
          RemoveBitwidthParameter.simps)
  also have "\<dots> = f32_reciprocal (f32 (?e + 0))"
    by (simp only: a torch_abs.simps f32_add.simps abs_zero)
  also have "\<dots> = f32_reciprocal (Finite ?e)" by (simp only: add_0_right b)
  also have "\<dots> = f32 (1 / ?e)" using nz by (simp only: f32_reciprocal.simps if_False)
  also have "\<dots> = PosInf" by (rule c)
  finally have "RemoveBitwidthParameter_forward_fl
        \<lparr>bit_width_coeff = 0, non_zero_epsilon = 1 / 10 ^ 40, override_pretrained_rm = False\<rparr>
      = PosInf" .
  moreover have "(0::real) < 1 / 10 ^ 40" by simp
  ultimately show ?thesis by (rule conjI [rotated])
qed

text \<open>
  Claim C5, amended. For every finite float32 value of the coefficient and every
  \<open>non_zero_epsilon\<close> from \<open>2^-126\<close> (the least normal float32 number) to \<open>2^102\<close>,
  \<^verbatim>\<open>forward()\<close> of a RemoveBitwidthParameter returns
  \<open>1 / (non_zero_epsilon + \<bar>bit_width_coeff\<bar>)\<close> evaluated in float32, each operation rounded.
  This value is finite and strictly positive; a coefficient of larger absolute value
  never gives a larger result; and it is at most the float32 value of
  \<open>1 / non_zero_epsilon\<close>, which is the result at coefficient \<open>0\<close>.
\<close>

theorem RemoveBitwidthParameter_forward_bounds:
  assumes lo: "2 powi (- 126) \<le> non_zero_epsilon self"
    and hi: "non_zero_epsilon self \<le> 2 powi 102"
    and c: "\<bar>bit_width_coeff self\<bar> \<le> FLT_MAX"
  shows "RemoveBitwidthParameter_forward_fl self =
           Finite (float_round 24 (- 126)
                     (1 / float_round 24 (- 126)
                            (float_round 24 (- 126) (non_zero_epsilon self)
                               + \<bar>bit_width_coeff self\<bar>)))
    \<and> 0 < fl_val (RemoveBitwidthParameter_forward_fl self)
    \<and> fl_val (RemoveBitwidthParameter_forward_fl self)
        \<le> float_round 24 (- 126) (1 / float_round 24 (- 126) (non_zero_epsilon self))
    \<and> RemoveBitwidthParameter_forward_fl (self\<lparr>bit_width_coeff := 0\<rparr>) =
          Finite (float_round 24 (- 126) (1 / float_round 24 (- 126) (non_zero_epsilon self)))
    \<and> (\<forall>c'. \<bar>bit_width_coeff self\<bar> \<le> \<bar>c'\<bar> \<and> \<bar>c'\<bar> \<le> FLT_MAX \<longrightarrow>
          fl_val (RemoveBitwidthParameter_forward_fl (self\<lparr>bit_width_coeff := c'\<rparr>))
            \<le> fl_val (RemoveBitwidthParameter_forward_fl self))"
proof -
  let ?r = "float_round 24 (- 126)"
  let ?eps = "non_zero_epsilon self"
  let ?c = "bit_width_coeff self"
  have v: "RemoveBitwidthParameter_forward_fl self = Finite (?r (1 / ?r (?r ?eps + \<bar>?c\<bar>)))"
    using lo hi c by (rule forward_fl_value)
  have upd: "RemoveBitwidthParameter_forward_fl (self\<lparr>bit_width_coeff := c'\<rparr>)
        = Finite (?r (1 / ?r (?r ?eps + \<bar>c'\<bar>)))" if "\<bar>c'\<bar> \<le> FLT_MAX" for c'
    using forward_fl_value [of "self\<lparr>bit_width_coeff := c'\<rparr>"] lo hi that by simp
  have fm: "(0::real) \<le> FLT_MAX" by (simp add: FLT_MAX_def)
  have idem: "?r (?r ?eps + \<bar>0\<bar>) = ?r ?eps" by (simp add: float_round_idem)
  have z: "RemoveBitwidthParameter_forward_fl (self\<lparr>bit_width_coeff := 0\<rparr>)
        = Finite (?r (1 / ?r ?eps))"
    using upd [of 0] fm idem by simp
  have pos: "0 < ?r (1 / ?r (?r ?eps + \<bar>?c\<bar>))"
    using forward_fl_steps(6) [OF lo hi c] .
  have ub: "?r (1 / ?r (?r ?eps + \<bar>?c\<bar>)) \<le> ?r (1 / ?r ?eps)"
    using forward_fl_antimono [OF lo hi _ c, of 0] idem by simp
  have mono: "\<forall>c'. \<bar>?c\<bar> \<le> \<bar>c'\<bar> \<and> \<bar>c'\<bar> \<le> FLT_MAX \<longrightarrow>
          fl_val (RemoveBitwidthParameter_forward_fl (self\<lparr>bit_width_coeff := c'\<rparr>))
            \<le> fl_val (RemoveBitwidthParameter_forward_fl self)"
    using forward_fl_antimono [OF lo hi] by (simp add: v upd)
  show ?thesis using v z pos ub mono by simp
qed

theorem RemoveBitwidthParameter_forward_bounds_witness:
  "0 < fl_val (RemoveBitwidthParameter_forward_fl
        \<lparr>bit_width_coeff = - 1 / 4, non_zero_epsilon = NON_ZERO_EPSILON,
         override_pretrained_rm = False\<rparr>)
   \<and> fl_val (RemoveBitwidthParameter_forward_fl
        \<lparr>bit_width_coeff = 1, non_zero_epsilon = NON_ZERO_EPSILON,
         override_pretrained_rm = False\<rparr>)
     \<le> fl_val (RemoveBitwidthParameter_forward_fl
        \<lparr>bit_width_coeff = - 1 / 4, non_zero_epsilon = NON_ZERO_EPSILON,
         override_pretrained_rm = False\<rparr>)"
proof -
  let ?self = "\<lparr>bit_width_coeff = - 1 / 4, non_zero_epsilon = NON_ZERO_EPSILON,
         override_pretrained_rm = False\<rparr>"
  have lo: "2 powi (- 126) \<le> non_zero_epsilon ?self" by (simp add: NON_ZERO_EPSILON_def)
  have hi: "non_zero_epsilon ?self \<le> 2 powi 102" by (simp add: NON_ZERO_EPSILON_def)
  have c: "\<bar>bit_width_coeff ?self\<bar> \<le> FLT_MAX" by (simp add: FLT_MAX_def)
  have c': "\<bar>bit_width_coeff ?self\<bar> \<le> \<bar>1::real\<bar> \<and> \<bar>1::real\<bar> \<le> FLT_MAX"
    by (simp add: FLT_MAX_def)
  note t = RemoveBitwidthParameter_forward_bounds [OF lo hi c]
  from t have p: "0 < fl_val (RemoveBitwidthParameter_forward_fl ?self)" by blast
  from t have "\<forall>c'. \<bar>bit_width_coeff ?self\<bar> \<le> \<bar>c'\<bar> \<and> \<bar>c'\<bar> \<le> FLT_MAX \<longrightarrow>
          fl_val (RemoveBitwidthParameter_forward_fl (?self\<lparr>bit_width_coeff := c'\<rparr>))
            \<le> fl_val (RemoveBitwidthParameter_forward_fl ?self)" by blast
  with c' have "fl_val (RemoveBitwidthParameter_forward_fl (?self\<lparr>bit_width_coeff := 1\<rparr>))
            \<le> fl_val (RemoveBitwidthParameter_forward_fl ?self)" by blast
  with p show ?thesis by simp
qed

subsection \<open>Construction of RemoveBitwidthParameter\<close>

text \<open>
  Claim C6, as stated: with the defaults and \<open>bit_width_to_remove = 0\<close> the value of
  \<^verbatim>\<open>forward()\<close> after construction is \<open>1 / (1e-6 + 10) = 0.0999999900000...\<close>, which does not
  agree with the quoted \<open>0.0999990\<close> to the seven places shown: the two differ by more
  than \<open>9e-7\<close>.
\<close>

theorem RemoveBitwidthParameter_init_forward_counterexample:
  "\<not> agrees_to 7
       (the_Fin (projr (RemoveBitwidthParameter_init_forward 0 False
                          NON_ZERO_EPSILON REMOVE_ZERO_BIT_WIDTH)))
       0.0999990"
  by (simp add: RemoveBitwidthParameter_init_def py_truediv_def RemoveBitwidthParameter_init_forward_def
        RemoveBitwidthParameter_forward_def tensor_rdiv_def NON_ZERO_EPSILON_def
        REMOVE_ZERO_BIT_WIDTH_def agrees_to_def)

text \<open>
  Claim C6, amended. Construction sets the coefficient to \<open>1 / remove_zero_bit_width\<close>
  when \<open>bit_width_to_remove = 0\<close> (and \<open>remove_zero_bit_width\<close> is not zero) and to
  \<open>1 / bit_width_to_remove\<close> when \<open>bit_width_to_remove > 0\<close>, whatever
  \<open>remove_zero_bit_width\<close> is.
  With the defaults, \<open>bit_width_to_remove = 0\<close> gives the coefficient \<open>10\<close> and
  \<^verbatim>\<open>forward()\<close> returns \<open>1 / (1e-6 + 10)\<close>, which is \<open>0.09999999\<close> to eight places;
  \<open>bit_width_to_remove = 4\<close> gives the coefficient \<open>0.25\<close> and \<^verbatim>\<open>forward()\<close> returns
  \<open>1 / (1e-6 + 0.25)\<close>, which is \<open>3.999984\<close> to six places. The values are those of the
  formulas in exact arithmetic.
\<close>

theorem RemoveBitwidthParameter_init_values:
  "(0 < bit_width_to_remove \<longrightarrow>
      RemoveBitwidthParameter_init bit_width_to_remove ovr eps remove_zero_bit_width =
        Inr \<lparr>bit_width_coeff = 1 / real_of_int bit_width_to_remove,
              non_zero_epsilon = eps, override_pretrained_rm = ovr\<rparr>)
   \<and> (remove_zero_bit_width \<noteq> 0 \<longrightarrow>
      RemoveBitwidthParameter_init 0 ovr eps remove_zero_bit_width =
        Inr \<lparr>bit_width_coeff = 1 / remove_zero_bit_width,
              non_zero_epsilon = eps, override_pretrained_rm = ovr\<rparr>)
   \<and> RemoveBitwidthParameter_init 0 ovr NON_ZERO_EPSILON REMOVE_ZERO_BIT_WIDTH =
        Inr \<lparr>bit_width_coeff = 10, non_zero_epsilon = 1 / 1000000,
              override_pretrained_rm = ovr\<rparr>
   \<and> RemoveBitwidthParameter_init_forward 0 ovr NON_ZERO_EPSILON REMOVE_ZERO_BIT_WIDTH =
        Inr (Fin (1 / (1 / 1000000 + 10)))
   \<and> agrees_to 8 (1 / (1 / 1000000 + 10)) 0.09999999
   \<and> RemoveBitwidthParameter_init 4 ovr NON_ZERO_EPSILON REMOVE_ZERO_BIT_WIDTH =
        Inr \<lparr>bit_width_coeff = 0.25, non_zero_epsilon = 1 / 1000000,
              override_pretrained_rm = ovr\<rparr>
   \<and> RemoveBitwidthParameter_init_forward 4 ovr NON_ZERO_EPSILON REMOVE_ZERO_BIT_WIDTH =
        Inr (Fin (1 / (1 / 1000000 + 0.25)))
   \<and> agrees_to 6 (1 / (1 / 1000000 + 0.25)) 3.999984"
  by (simp add: RemoveBitwidthParameter_init_def py_truediv_def RemoveBitwidthParameter_init_forward_def
        RemoveBitwidthParameter_forward_def tensor_rdiv_def NON_ZERO_EPSILON_def
        REMOVE_ZERO_BIT_WIDTH_def agrees_to_def)

theorem RemoveBitwidthParameter_init_values_witness:
  "RemoveBitwidthParameter_init 7 True 0 5 =
     Inr \<lparr>bit_width_coeff = 1 / 7, non_zero_epsilon = 0, override_pretrained_rm = True\<rparr>
   \<and> RemoveBitwidthParameter_init 4 True 0 0 =
     Inr \<lparr>bit_width_coeff = 1 / 4, non_zero_epsilon = 0, override_pretrained_rm = True\<rparr>
   \<and> RemoveBitwidthParameter_init 0 True 0 5 =
     Inr \<lparr>bit_width_coeff = 1 / 5, non_zero_epsilon = 0, override_pretrained_rm = True\<rparr>"
  using RemoveBitwidthParameter_init_values [of 7 True 0 5]
        RemoveBitwidthParameter_init_values [of 4 True 0 0]
        RemoveBitwidthParameter_init_values [of 0 True 0 5]
  by simp

text \<open>
  Claim C8. Construction of a RemoveBitwidthParameter raises RuntimeError (the spec's
  ConfigurationError) if and only if \<open>bit_width_to_remove < 0\<close>; with the default
  \<open>remove_zero_bit_width\<close> every \<open>bit_width_to_remove \<ge> 0\<close> yields an instance.
  \<^verbatim>\<open>forward()\<close> has no raising branch: it returns a tensor value for every instance, the
  non-finite one when the denominator is zero.
\<close>

theorem RemoveBitwidthParameter_init_errors:
  "((\<exists>msg. RemoveBitwidthParameter_init bit_width_to_remove ovr eps remove_zero_bit_width =
            Inl (RuntimeError msg)) \<longleftrightarrow> bit_width_to_remove < 0)
   \<and> (bit_width_to_remove < 0 \<longrightarrow>
        RemoveBitwidthParameter_init bit_width_to_remove ovr eps remove_zero_bit_width =
          Inl (RuntimeError ''Bit width to clamp has to be >= 0.''))
   \<and> (0 \<le> bit_width_to_remove \<longrightarrow>
        (\<exists>self. RemoveBitwidthParameter_init bit_width_to_remove ovr eps REMOVE_ZERO_BIT_WIDTH =
                  Inr self))
   \<and> (non_zero_epsilon self + \<bar>bit_width_coeff self\<bar> = 0 \<longrightarrow>
        RemoveBitwidthParameter_forward self = NonFinite)
   \<and> (non_zero_epsilon self + \<bar>bit_width_coeff self\<bar> \<noteq> 0 \<longrightarrow>
        RemoveBitwidthParameter_forward self =
          Fin (1 / (non_zero_epsilon self + \<bar>bit_width_coeff self\<bar>)))"
  by (simp add: RemoveBitwidthParameter_init_def py_truediv_def RemoveBitwidthParameter_forward_def
        tensor_rdiv_def REMOVE_ZERO_BIT_WIDTH_def)

theorem RemoveBitwidthParameter_init_errors_witness:
  "RemoveBitwidthParameter_init (- 1) False NON_ZERO_EPSILON REMOVE_ZERO_BIT_WIDTH =
     Inl (RuntimeError ''Bit width to clamp has to be >= 0.'')
   \<and> (\<exists>self. RemoveBitwidthParameter_init 3 False NON_ZERO_EPSILON REMOVE_ZERO_BIT_WIDTH =
               Inr self)
   \<and> RemoveBitwidthParameter_forward
       \<lparr>bit_width_coeff = 0, non_zero_epsilon = 0, override_pretrained_rm = False\<rparr> = NonFinite
   \<and> RemoveBitwidthParameter_forward
       \<lparr>bit_width_coeff = 1, non_zero_epsilon = 1, override_pretrained_rm = False\<rparr> = Fin (1 / 2)"
  using RemoveBitwidthParameter_init_errors
          [of "- 1" False NON_ZERO_EPSILON REMOVE_ZERO_BIT_WIDTH
              "\<lparr>bit_width_coeff = 0, non_zero_epsilon = 0, override_pretrained_rm = False\<rparr>"]
        RemoveBitwidthParameter_init_errors
          [of 3 False NON_ZERO_EPSILON REMOVE_ZERO_BIT_WIDTH
              "\<lparr>bit_width_coeff = 1, non_zero_epsilon = 1, override_pretrained_rm = False\<rparr>"]
  by simp

text \<open>
  Claim C10. Construction checks neither \<open>remove_zero_bit_width\<close> nor
  \<open>non_zero_epsilon\<close>: with \<open>bit_width_to_remove = 0\<close> and \<open>remove_zero_bit_width = 0\<close> the
  division \<^verbatim>\<open>1 / remove_zero_bit_width\<close> raises ZeroDivisionError, which is not the
  RuntimeError of the argument checks; any \<open>non_zero_epsilon\<close> is stored as it is, and a
  zero \<open>remove_zero_bit_width\<close> goes unnoticed when \<open>bit_width_to_remove > 0\<close>.
\<close>

theorem RemoveBitwidthParameter_init_zero_division:
  "RemoveBitwidthParameter_init 0 ovr eps 0 = Inl ZeroDivisionError
   \<and> (\<forall>msg. RemoveBitwidthParameter_init 0 ovr eps 0 \<noteq> Inl (RuntimeError msg))
   \<and> (0 \<le> bit_width_to_remove \<and> remove_zero_bit_width \<noteq> 0 \<longrightarrow>
        (\<exists>self. RemoveBitwidthParameter_init bit_width_to_remove ovr eps remove_zero_bit_width
                  = Inr self \<and> non_zero_epsilon self = eps))
   \<and> (0 < bit_width_to_remove \<longrightarrow>
        (\<exists>self. RemoveBitwidthParameter_init bit_width_to_remove ovr eps remove_zero_bit_width
                  = Inr self))"
  by (simp add: RemoveBitwidthParameter_init_def py_truediv_def)

theorem RemoveBitwidthParameter_init_zero_division_witness:
  "RemoveBitwidthParameter_init 0 False NON_ZERO_EPSILON 0 = Inl ZeroDivisionError
   \<and> (\<exists>self. RemoveBitwidthParameter_init 4 False (- 1) REMOVE_ZERO_BIT_WIDTH = Inr self
         \<and> non_zero_epsilon self = - 1)
   \<and> (\<exists>self. RemoveBitwidthParameter_init 4 False 0 0 = Inr self)"
  using RemoveBitwidthParameter_init_zero_division [of False NON_ZERO_EPSILON 4 0]
        RemoveBitwidthParameter_init_zero_division [of False "- 1" 4 REMOVE_ZERO_BIT_WIDTH]
        RemoveBitwidthParameter_init_zero_division [of False 0 4 0]
  by (simp add: REMOVE_ZERO_BIT_WIDTH_def)

subsection \<open>Restoring state\<close>

lemma BitWidthParameter_load_eq:
  "BitWidthParameter_load_from_state_dict super_load ign prefix lm strict st =
     (let key = prefix @ ''bit_width_offset'';
          st2 = super_load prefix lm strict
                  (if override_pretrained (module st) \<and> key \<in> dom (state_dict st)
                   then st\<lparr>state_dict := (state_dict st)(key := None)\<rparr> else st)
      in if ign \<and> key \<in> set (missing_keys st2)
         then st2\<lparr>missing_keys := remove1 key (missing_keys st2)\<rparr> else st2)"
  by (simp add: BitWidthParameter_load_from_state_dict_def Let_def)

lemma RemoveBitwidthParameter_load_eq:
  "RemoveBitwidthParameter_load_from_state_dict super_load ign prefix lm strict st =
     (let key = prefix @ ''bit_width_coeff'';
          st2 = super_load prefix lm strict
                  (if override_pretrained_rm (module st) \<and> key \<in> dom (state_dict st)
                   then st\<lparr>state_dict := (state_dict st)(key := None)\<rparr> else st)
      in if ign \<and> key \<in> set (missing_keys st2)
         then st2\<lparr>missing_keys := remove1 key (missing_keys st2)\<rparr> else st2)"
  by (simp add: RemoveBitwidthParameter_load_from_state_dict_def Let_def)

lemma param_loader_absent:
  "state_dict st (prefix @ name) = None \<Longrightarrow>
     module (param_loader name set_param prefix lm strict st) = module st"
  by (simp add: param_loader_def)

text \<open>
  Claim C4. For both classes: when \<open>override_pretrained\<close> is set and the parameter's key
  (the prefix followed by \<^verbatim>\<open>bit_width_offset\<close>, respectively \<^verbatim>\<open>bit_width_coeff\<close>) is in the
  saved-state mapping, the hook hands the generic loading procedure the mapping with that
  key deleted, and its own result has the instance and the mapping the procedure returns;
  so with any generic procedure that leaves the parameter alone when its key is absent,
  the parameter keeps the value it had before the call. When the flag is unset or the key
  is absent, the generic procedure receives the mapping as it was supplied.
\<close>

theorem load_from_state_dict_override:
  fixes super_b :: "(BitWidthParameter, 'meta) loader"
    and super_r :: "(RemoveBitwidthParameter, 'meta) loader"
  shows
  "(override_pretrained (module st) \<and> prefix @ ''bit_width_offset'' \<in> dom (state_dict st) \<longrightarrow>
      (let key = prefix @ ''bit_width_offset'';
           st1 = st\<lparr>state_dict := (state_dict st)(key := None)\<rparr>;
           st2 = super_b prefix lm strict st1;
           st3 = BitWidthParameter_load_from_state_dict super_b ign prefix lm strict st
       in key \<notin> dom (state_dict st1)
          \<and> module st3 = module st2 \<and> state_dict st3 = state_dict st2
          \<and> ((\<forall>s. key \<notin> dom (state_dict s) \<longrightarrow>
                  bit_width_offset (module (super_b prefix lm strict s))
                    = bit_width_offset (module s))
              \<longrightarrow> bit_width_offset (module st3) = bit_width_offset (module st))))
   \<and> (\<not> (override_pretrained (module st)
           \<and> prefix @ ''bit_width_offset'' \<in> dom (state_dict st)) \<longrightarrow>
      (let st2 = super_b prefix lm strict st;
           st3 = BitWidthParameter_load_from_state_dict super_b ign prefix lm strict st
       in module st3 = module st2 \<and> state_dict st3 = state_dict st2))
   \<and> (override_pretrained_rm (module rst)
        \<and> prefix @ ''bit_width_coeff'' \<in> dom (state_dict rst) \<longrightarrow>
      (let key = prefix @ ''bit_width_coeff'';
           st1 = rst\<lparr>state_dict := (state_dict rst)(key := None)\<rparr>;
           st2 = super_r prefix lm strict st1;
           st3 = RemoveBitwidthParameter_load_from_state_dict super_r ign prefix lm strict rst
       in key \<notin> dom (state_dict st1)
          \<and> module st3 = module st2 \<and> state_dict st3 = state_dict st2
          \<and> ((\<forall>s. key \<notin> dom (state_dict s) \<longrightarrow>
                  bit_width_coeff (module (super_r prefix lm strict s))
                    = bit_width_coeff (module s))
              \<longrightarrow> bit_width_coeff (module st3) = bit_width_coeff (module rst))))
   \<and> (\<not> (override_pretrained_rm (module rst)
           \<and> prefix @ ''bit_width_coeff'' \<in> dom (state_dict rst)) \<longrightarrow>
      (let st2 = super_r prefix lm strict rst;
           st3 = RemoveBitwidthParameter_load_from_state_dict super_r ign prefix lm strict rst
       in module st3 = module st2 \<and> state_dict st3 = state_dict st2))"
  by (simp add: BitWidthParameter_load_eq RemoveBitwidthParameter_load_eq Let_def)

theorem load_from_state_dict_override_witness:
  "bit_width_offset (module (BitWidthParameter_load_from_state_dict
       (param_loader ''bit_width_offset'' set_bit_width_offset) False ''q.'' () True
       \<lparr>module = \<lparr>bit_width_offset = 6, bit_width_base = 2,
                   restrict_bit_width_impl = IntRestrictValue RoundSte,
                   override_pretrained = True\<rparr>,
        state_dict = [''q.bit_width_offset'' \<mapsto> 1],
        missing_keys = [], unexpected_keys = [], error_msgs = []\<rparr>)) = 6
   \<and> bit_width_offset (module (BitWidthParameter_load_from_state_dict
       (param_loader ''bit_width_offset'' set_bit_width_offset) False ''q.'' () True
       \<lparr>module = \<lparr>bit_width_offset = 6, bit_width_base = 2,
                   restrict_bit_width_impl = IntRestrictValue RoundSte,
                   override_pretrained = False\<rparr>,
        state_dict = [''q.bit_width_offset'' \<mapsto> 1],
        missing_keys = [], unexpected_keys = [], error_msgs = []\<rparr>)) = 1
   \<and> bit_width_coeff (module (RemoveBitwidthParameter_load_from_state_dict
       (param_loader ''bit_width_coeff'' set_bit_width_coeff) False ''q.'' () True
       \<lparr>module = \<lparr>bit_width_coeff = 1 / 4, non_zero_epsilon = NON_ZERO_EPSILON,
                   override_pretrained_rm = True\<rparr>,
        state_dict = [''q.bit_width_coeff'' \<mapsto> 3],
        missing_keys = [], unexpected_keys = [], error_msgs = []\<rparr>)) = 1 / 4
   \<and> bit_width_coeff (module (RemoveBitwidthParameter_load_from_state_dict
       (param_loader ''bit_width_coeff'' set_bit_width_coeff) False ''q.'' () True
       \<lparr>module = \<lparr>bit_width_coeff = 1 / 4, non_zero_epsilon = NON_ZERO_EPSILON,
                   override_pretrained_rm = False\<rparr>,
        state_dict = [''q.bit_width_coeff'' \<mapsto> 3],
        missing_keys = [], unexpected_keys = [], error_msgs = []\<rparr>)) = 3"
proof -
  let ?lb = "param_loader ''bit_width_offset'' set_bit_width_offset
               :: (BitWidthParameter, unit) loader"
  let ?lr = "param_loader ''bit_width_coeff'' set_bit_width_coeff
               :: (RemoveBitwidthParameter, unit) loader"
  let ?mb = "\<lambda>ovr. \<lparr>bit_width_offset = 6, bit_width_base = 2,
                   restrict_bit_width_impl = IntRestrictValue RoundSte,
                   override_pretrained = ovr\<rparr>"
  let ?mr = "\<lambda>ovr. \<lparr>bit_width_coeff = 1 / 4, non_zero_epsilon = NON_ZERO_EPSILON,
                   override_pretrained_rm = ovr\<rparr>"
  let ?sb = "\<lambda>ovr. \<lparr>module = ?mb ovr, state_dict = [''q.bit_width_offset'' \<mapsto> 1],
        missing_keys = [], unexpected_keys = [], error_msgs = []\<rparr>"
  let ?sr = "\<lambda>ovr. \<lparr>module = ?mr ovr, state_dict = [''q.bit_width_coeff'' \<mapsto> (3::real)],
        missing_keys = [], unexpected_keys = [], error_msgs = []\<rparr>"
  have fb: "\<forall>s. ''q.'' @ ''bit_width_offset'' \<notin> dom (state_dict s) \<longrightarrow>
              bit_width_offset (module (?lb ''q.'' () True s)) = bit_width_offset (module s)"
    by (simp add: param_loader_absent domIff)
  have fr: "\<forall>s. ''q.'' @ ''bit_width_coeff'' \<notin> dom (state_dict s) \<longrightarrow>
              bit_width_coeff (module (?lr ''q.'' () True s)) = bit_width_coeff (module s)"
    by (simp add: param_loader_absent domIff)
  have t: "bit_width_offset (module (BitWidthParameter_load_from_state_dict ?lb False ''q.'' ()
             True (?sb True))) = 6
        \<and> bit_width_coeff (module (RemoveBitwidthParameter_load_from_state_dict ?lr False
             ''q.'' () True (?sr True))) = 1 / 4"
    using load_from_state_dict_override
            [where super_b = ?lb and super_r = ?lr and st = "?sb True" and rst = "?sr True"
               and prefix = "''q.''" and lm = "()" and strict = True and ign = False]
          fb fr
    by (simp add: Let_def)
  have f: "bit_width_offset (module (BitWidthParameter_load_from_state_dict ?lb False ''q.'' ()
             True (?sb False))) = 1
        \<and> bit_width_coeff (module (RemoveBitwidthParameter_load_from_state_dict ?lr False
             ''q.'' () True (?sr False))) = 3"
    using load_from_state_dict_override
            [where super_b = ?lb and super_r = ?lr and st = "?sb False" and rst = "?sr False"
               and prefix = "''q.''" and lm = "()" and strict = True and ign = False]
    by (simp add: Let_def param_loader_def set_bit_width_offset_def set_bit_width_coeff_def)
  from t f show ?thesis by simp
qed

text \<open>
  Claim C7. For both classes, after the generic loading procedure has run: if the
  ignore-missing-keys flag is set and the parameter's key is in the missing-keys list,
  the hook removes it (its first occurrence, which is the only one in a list without
  repetitions) and changes nothing else; if the flag is unset, or the key is not in the
  list, the hook returns exactly what the generic procedure produced.
\<close>

theorem load_from_state_dict_missing_keys:
  fixes super_b :: "(BitWidthParameter, 'meta) loader"
    and super_r :: "(RemoveBitwidthParameter, 'meta) loader"
  shows
  "(let key = prefix @ ''bit_width_offset'';
        st2 = super_b prefix lm strict
                (if override_pretrained (module st) \<and> key \<in> dom (state_dict st)
                 then st\<lparr>state_dict := (state_dict st)(key := None)\<rparr> else st);
        st3 = BitWidthParameter_load_from_state_dict super_b ign prefix lm strict st
    in (ign \<and> key \<in> set (missing_keys st2) \<longrightarrow>
          st3 = st2\<lparr>missing_keys := remove1 key (missing_keys st2)\<rparr>
          \<and> length (missing_keys st3) + 1 = length (missing_keys st2)
          \<and> (distinct (missing_keys st2) \<longrightarrow> key \<notin> set (missing_keys st3)))
       \<and> (\<not> ign \<longrightarrow> st3 = st2)
       \<and> (key \<notin> set (missing_keys st2) \<longrightarrow> st3 = st2))
   \<and> (let key = prefix @ ''bit_width_coeff'';
        st2 = super_r prefix lm strict
                (if override_pretrained_rm (module rst) \<and> key \<in> dom (state_dict rst)
                 then rst\<lparr>state_dict := (state_dict rst)(key := None)\<rparr> else rst);
        st3 = RemoveBitwidthParameter_load_from_state_dict super_r ign prefix lm strict rst
    in (ign \<and> key \<in> set (missing_keys st2) \<longrightarrow>
          st3 = st2\<lparr>missing_keys := remove1 key (missing_keys st2)\<rparr>
          \<and> length (missing_keys st3) + 1 = length (missing_keys st2)
          \<and> (distinct (missing_keys st2) \<longrightarrow> key \<notin> set (missing_keys st3)))
       \<and> (\<not> ign \<longrightarrow> st3 = st2)
       \<and> (key \<notin> set (missing_keys st2) \<longrightarrow> st3 = st2))"
  by (auto simp add: BitWidthParameter_load_eq RemoveBitwidthParameter_load_eq Let_def
        length_remove1 dest: length_pos_if_in_set)

theorem load_from_state_dict_missing_keys_witness:
  "missing_keys (BitWidthParameter_load_from_state_dict
       (param_loader ''bit_width_offset'' set_bit_width_offset) True ''q.'' () True
       \<lparr>module = \<lparr>bit_width_offset = 6, bit_width_base = 2,
                   restrict_bit_width_impl = IntRestrictValue RoundSte,
                   override_pretrained = False\<rparr>,
        state_dict = Map.empty,
        missing_keys = [''p.weight''], unexpected_keys = [], error_msgs = []\<rparr>)
     = [''p.weight'']
   \<and> missing_keys (BitWidthParameter_load_from_state_dict
       (param_loader ''bit_width_offset'' set_bit_width_offset) False ''q.'' () True
       \<lparr>module = \<lparr>bit_width_offset = 6, bit_width_base = 2,
                   restrict_bit_width_impl = IntRestrictValue RoundSte,
                   override_pretrained = False\<rparr>,
        state_dict = Map.empty,
        missing_keys = [''p.weight''], unexpected_keys = [], error_msgs = []\<rparr>)
     = [''p.weight'', ''q.bit_width_offset'']
   \<and> missing_keys (RemoveBitwidthParameter_load_from_state_dict
       (param_loader ''bit_width_coeff'' set_bit_width_coeff) True ''q.'' () True
       \<lparr>module = \<lparr>bit_width_coeff = 1 / 4, non_zero_epsilon = NON_ZERO_EPSILON,
                   override_pretrained_rm = True\<rparr>,
        state_dict = [''q.bit_width_coeff'' \<mapsto> 3],
        missing_keys = [], unexpected_keys = [], error_msgs = []\<rparr>)
     = []
   \<and> missing_keys (RemoveBitwidthParameter_load_from_state_dict
       (param_loader ''bit_width_coeff'' set_bit_width_coeff) False ''q.'' () True
       \<lparr>module = \<lparr>bit_width_coeff = 1 / 4, non_zero_epsilon = NON_ZERO_EPSILON,
                   override_pretrained_rm = True\<rparr>,
        state_dict = [''q.bit_width_coeff'' \<mapsto> 3],
        missing_keys = [], unexpected_keys = [], error_msgs = []\<rparr>)
     = [''q.bit_width_coeff'']"
proof -
  let ?lb = "param_loader ''bit_width_offset'' set_bit_width_offset
               :: (BitWidthParameter, unit) loader"
  let ?lr = "param_loader ''bit_width_coeff'' set_bit_width_coeff
               :: (RemoveBitwidthParameter, unit) loader"
  let ?sb = "\<lparr>module = \<lparr>bit_width_offset = 6, bit_width_base = 2,
                   restrict_bit_width_impl = IntRestrictValue RoundSte,
                   override_pretrained = False\<rparr>,
        state_dict = Map.empty,
        missing_keys = [''p.weight''], unexpected_keys = [], error_msgs = []\<rparr>"
  let ?sr = "\<lparr>module = \<lparr>bit_width_coeff = 1 / 4, non_zero_epsilon = NON_ZERO_EPSILON,
                   override_pretrained_rm = True\<rparr>,
        state_dict = [''q.bit_width_coeff'' \<mapsto> (3::real)],
        missing_keys = [], unexpected_keys = [], error_msgs = []\<rparr>"
  show ?thesis
    using load_from_state_dict_missing_keys
            [where super_b = ?lb and super_r = ?lr and st = ?sb and rst = ?sr
               and prefix = "''q.''" and lm = "()" and strict = True and ign = True]
          load_from_state_dict_missing_keys
            [where super_b = ?lb and super_r = ?lr and st = ?sb and rst = ?sr
               and prefix = "''q.''" and lm = "()" and strict = True and ign = False]
    by (simp add: Let_def param_loader_def)
qed

end
